theory Spec2Isabelle
  imports Main "HOL-Library.Word" "HOL-Library.Monad_Syntax" "HOL-Library.AList"
begin

unbundle bit_operations_syntax

section \<open>The C library pieces ftrace.c relies on\<close>

subsection \<open>printf conversions\<close>

text \<open>
  Only the conversions that occur in ftrace.c are modelled: \<open>%d\<close>, \<open>%5d\<close>, \<open>%lu\<close>,
  \<open>%4lu\<close>, \<open>%#lx\<close>, \<open>%s\<close>, \<open>%9s\<close> and \<open>%*s\<close>. A C string is a \<open>string\<close> without
  the terminating NUL.
\<close>

definition digit_char :: "nat \<Rightarrow> char" where
  "digit_char d = ''0123456789abcdef'' ! d"

fun dec_digits :: "nat \<Rightarrow> string" where
  "dec_digits n = (if n < 10 then [digit_char n] else dec_digits (n div 10) @ [digit_char (n mod 10)])"

fun hex_digits :: "nat \<Rightarrow> string" where
  "hex_digits n = (if n < 16 then [digit_char n] else hex_digits (n div 16) @ [digit_char (n mod 16)])"

declare dec_digits.simps [simp del] hex_digits.simps [simp del]

text \<open>\<open>%lu\<close> of an \<open>unsigned long\<close> (64 bits on the LP64 targets of the tool).\<close>

definition fmt_lu :: "64 word \<Rightarrow> string" where
  "fmt_lu x = dec_digits (unat x)"

text \<open>\<open>%d\<close> of an \<open>int\<close>.\<close>

definition fmt_d :: "32 word \<Rightarrow> string" where
  "fmt_d x = (if sint x < 0 then CHR ''-'' # dec_digits (nat (- sint x)) else dec_digits (nat (sint x)))"

text \<open>\<open>%#lx\<close>: lower-case hexadecimal with the \<open>0x\<close> prefix, which printf omits for zero.\<close>

definition fmt_hash_lx :: "64 word \<Rightarrow> string" where
  "fmt_hash_lx x = (if x = 0 then ''0'' else ''0x'' @ hex_digits (unat x))"

text \<open>A minimum field width pads with spaces on the left.\<close>

definition pad_left :: "nat \<Rightarrow> string \<Rightarrow> string" where
  "pad_left w s = replicate (w - length s) CHR '' '' @ s"

text \<open>
  \<open>%*s\<close> takes the width from an \<open>int\<close> argument; a negative width means left
  justification in a field of the absolute value.
\<close>

definition fmt_star_s :: "32 word \<Rightarrow> string \<Rightarrow> string" where
  "fmt_star_s w s =
     (if sint w < 0 then s @ replicate (nat (- sint w) - length s) CHR '' ''
      else pad_left (nat (sint w)) s)"

subsection \<open>Bounded buffers\<close>

text \<open>
  \<open>snprintf(buf, size, ...)\<close> stores at most \<open>size - 1\<close> characters of the formatted
  text. \<open>strcat(buf, s)\<close> into an array of \<open>size\<close> bytes is defined only when the
  result and its NUL fit; writing past the array is undefined behaviour, which the
  model reports as \<open>None\<close>.
\<close>

definition snprintf :: "nat \<Rightarrow> string \<Rightarrow> string" where
  "snprintf sz s = take (sz - 1) s"

definition strcat :: "nat \<Rightarrow> string \<Rightarrow> string \<Rightarrow> string option" where
  "strcat sz buf s = (if length buf + length s < sz then Some (buf @ s) else None)"

subsection \<open>strtok\<close>

text \<open>
  \<open>strtok(str, delim)\<close> keeps the rest of the string being split in a static pointer,
  here the third argument and the second result. With \<open>str = NULL\<close> it continues
  there. It skips leading delimiters, returns \<open>NULL\<close> when nothing is left, and
  otherwise returns the token up to the next delimiter, which it overwrites.
\<close>

definition strtok :: "string option \<Rightarrow> string \<Rightarrow> string \<Rightarrow> string option \<times> string" where
  "strtok str delim saved =
     (let s = (case str of Some s0 \<Rightarrow> s0 | None \<Rightarrow> saved);
          s' = dropWhile (\<lambda>c. c \<in> set delim) s
      in if s' = [] then (None, [])
         else (Some (takeWhile (\<lambda>c. c \<notin> set delim) s'),
               drop 1 (dropWhile (\<lambda>c. c \<notin> set delim) s')))"

subsection \<open>memcmp and the environment\<close>

text \<open>
  \<open>memcmp(a, b, n)\<close> on two arrays that hold at least \<open>n\<close> bytes each: 0 when the
  first \<open>n\<close> bytes agree, otherwise the difference of the first pair that differs.
  Reading past an array is undefined; the last equation covers it.
\<close>

fun memcmp :: "string \<Rightarrow> string \<Rightarrow> nat \<Rightarrow> int" where
  "memcmp (a # as) (b # bs) (Suc n) =
     (if a = b then memcmp as bs n else int (of_char a) - int (of_char b))"
| "memcmp _ _ _ = 0"

text \<open>
  The environment is the list of the \<open>NAME=value\<close> entries. \<open>setenv\<close> replaces
  the value of an entry that exists (when \<open>overwrite\<close> is non-zero) and adds the
  entry otherwise.
\<close>

type_synonym env = "(string \<times> string) list"

definition getenv :: "env \<Rightarrow> string \<Rightarrow> string option" where
  "getenv e n = map_of e n"

definition setenv :: "string \<Rightarrow> string \<Rightarrow> int \<Rightarrow> env \<Rightarrow> env" where
  "setenv n v overwrite e =
     (if overwrite \<noteq> 0 \<or> map_of e n = None then AList.update n v e else e)"

subsection \<open>Wait status\<close>

definition WTERMSIG :: "32 word \<Rightarrow> 32 word" where
  "WTERMSIG status = status AND 0x7f"

definition WIFSIGNALED :: "32 word \<Rightarrow> bool" where
  "WIFSIGNALED status = (1 \<le> unat (status AND 0x7f) \<and> unat (status AND 0x7f) \<le> 126)"

subsection \<open>dladdr\<close>

record Dl_info =
  dli_sname :: "string option"

section \<open>mcount.h\<close>

text \<open>
  Modelled from the spec: \<open>struct mcount_ret_stack\<close>, declared in mcount.h, which
  is not among the sources. It is the CallEvent of the specification (thread id,
  depth, parent and child address, start and end time, an end time of 0 marking an
  entry), with the member names ftrace.c uses and the C types its printf
  conversions give them: \<open>%lu\<close> for the times, \<open>%d\<close> for \<open>tid\<close> and \<open>depth\<close>; the
  addresses are passed to \<open>find_symtab\<close> and cast to pointers.
\<close>

record mcount_ret_stack =
  parent_ip :: "64 word"
  child_ip :: "64 word"
  start_time :: "64 word"
  end_time :: "64 word"
  tid :: "32 word"
  depth :: "32 word"

text \<open>
  Modelled from the spec: \<open>struct ftrace_file_header\<close>, declared in mcount.h. It is
  the TraceHeader of the specification: the magic bytes, an array that memcmp reads
  \<open>FTRACE_MAGIC_LEN\<close> bytes of, and the integer version.
\<close>

record ftrace_file_header =
  magic :: string
  version :: int

text \<open>
  The four macros of mcount.h that ftrace.c uses. Their values are not in the
  sources: the definitions below take them as the parameter \<open>h\<close>.
  \<open>FTRACE_MAGIC_STR\<close> is the array of the string literal, its terminating NUL
  included.
\<close>

record mcount_h =
  FTRACE_MAGIC_STR :: string
  FTRACE_MAGIC_LEN :: nat
  FTRACE_VERSION :: int
  FTRACE_FILE_NAME :: string

section \<open>symbol.h\<close>

text \<open>
  Modelled from the spec: \<open>struct sym\<close>, declared in symbol.h, which is not among
  the sources. It is the Symbol of the specification; ftrace.c reads its \<open>name\<close>
  and, with \<open>%#lx\<close>, its \<open>addr\<close>, and nothing else of it.
\<close>

record sym =
  name :: string
  addr :: "64 word"

text \<open>
  The table that \<open>load_symtab\<close> builds is kept in symbol.c, also absent. ftrace.c
  reaches it through \<open>find_symname\<close> and \<open>find_symtab\<close> only, so a loaded table is
  taken as a parameter: the pair of these two lookups, \<open>None\<close> for NULL.
\<close>

record symtab =
  find_symname :: "string \<Rightarrow> sym option"
  find_symtab :: "64 word \<Rightarrow> sym option"

section \<open>ftrace.c\<close>

subsection \<open>build_addrlist\<close>

text \<open>Each token strtok returns leaves less of the string to split.\<close>

lemma strtok_None_saved: "fst (strtok str delim saved) = None \<Longrightarrow> snd (strtok str delim saved) = []"
  by (simp add: strtok_def Let_def split: if_splits)

lemma strtok_saved_shorter:
  assumes "fst (strtok None delim saved) \<noteq> None"
  shows "length (snd (strtok None delim saved)) < length saved"
proof -
  define s' where "s' = dropWhile (\<lambda>c. c \<in> set delim) saved"
  have ne: "s' \<noteq> []"
    using assms unfolding strtok_def Let_def s'_def by (auto split: if_splits)
  have snd_eq: "snd (strtok None delim saved) = drop 1 (dropWhile (\<lambda>c. c \<notin> set delim) s')"
    using ne unfolding strtok_def Let_def s'_def by (simp del: dropWhile_eq_Nil_conv)
  have "length (drop 1 (dropWhile (\<lambda>c. c \<notin> set delim) s')) < length s'"
    using ne length_dropWhile_le [of "\<lambda>c. c \<notin> set delim" s'] by (cases s') auto
  moreover have "length s' \<le> length saved"
    unfolding s'_def by (rule length_dropWhile_le)
  ultimately show ?thesis
    by (simp only: snd_eq)
qed

text \<open>
  The loop of \<open>build_addrlist\<close>: \<open>p\<close> is the local pointer (non-NULL only while the
  first token is handled), \<open>fname\<close> the current token, \<open>saved\<close> the state of strtok,
  \<open>cap\<close> the size of the array \<open>buf\<close> points to.
\<close>

function build_addrlist_loop ::
  "symtab \<Rightarrow> nat \<Rightarrow> string \<Rightarrow> string option \<Rightarrow> string option \<Rightarrow> string \<Rightarrow> string option" where
  "build_addrlist_loop tab cap buf p fname saved =
     (case fname of
        None \<Rightarrow> Some buf
      | Some fn \<Rightarrow>
          (case (case find_symname tab fn of
                   Some sy \<Rightarrow>
                     strcat cap buf
                       (snprintf 64 ((if p \<noteq> None then [] else '':'') @ fmt_hash_lx (addr sy)))
                 | None \<Rightarrow> Some buf) of
             None \<Rightarrow> None
           | Some buf' \<Rightarrow>
               build_addrlist_loop tab cap buf' None
                 (fst (strtok None '',:'' saved)) (snd (strtok None '',:'' saved))))"
  by pat_completeness auto

termination
proof (relation "measure (\<lambda>(tab, cap, buf, p, fname, saved).
          length saved + (if fname = None then 0 else 1))", goal_cases)
  case 1
  show ?case by simp
next
  case (2 tab cap buf p fname saved x2 x2a)
  show ?case
  proof (cases "fst (strtok None '',:'' saved)")
    case None
    then show ?thesis
      using 2 strtok_None_saved [of None "'',:''" saved] by simp
  next
    case (Some t)
    then show ?thesis
      using 2 strtok_saved_shorter [of "'',:''" saved] by simp
  qed
qed

declare build_addrlist_loop.simps [simp del]

definition build_addrlist :: "symtab \<Rightarrow> nat \<Rightarrow> string \<Rightarrow> string option" where
  "build_addrlist tab cap symlist =
     (let p = Some symlist;
          r = strtok p '',:'' []
      in build_addrlist_loop tab cap [] p (fst r) (snd r))"

subsection \<open>Options, the outside world and what a command does to it\<close>

text \<open>
  \<open>struct opts\<close>. The pointers that \<open>main\<close> leaves NULL unless an option sets
  them are options here; \<open>exename\<close> is never NULL once \<open>parse_option\<close> has accepted
  the command line. The static flag \<open>debug\<close> is passed next to the options.
\<close>

record opts =
  lib_path :: "string option"
  filter :: "string option"
  notrace :: "string option"
  exename :: string
  filename :: "string option"
  mode :: int
  flat :: int
  idx :: nat

text \<open>
  A trace file as the reader sees it: the header (absent when the file is shorter
  than one), the whole records after it, and the bytes left over after the last
  whole record, fewer than one record. Of a file shorter than a header the
  leftover bytes are all its bytes.
\<close>

record data_file =
  file_header :: "ftrace_file_header option"
  file_records :: "mcount_ret_stack list"
  file_tail :: string

text \<open>
  The answers of the system to the calls ftrace.c makes. \<open>load_symtab\<close> gives its
  return value and the table it loaded; \<open>fork\<close> the pid it returns in the process
  being followed; \<open>execv_ok\<close> whether execv replaces the process image; \<open>fopen\<close>
  either \<open>errno\<close> or the file; \<open>mkstemp\<close> the descriptor and the filled-in
  template; \<open>dladdr\<close> is \<open>None\<close> when dladdr returns 0 and leaves its result
  argument as it was. The two last members are the indeterminate contents of
  automatic variables that ftrace.c reads without having checked that they were
  written.
\<close>

record os =
  environ :: env
  load_symtab :: "string \<Rightarrow> int \<times> symtab"
  fork :: int
  execv_ok :: bool
  waitpid :: "32 word"
  access :: "string \<Rightarrow> int"
  fopen :: "string \<Rightarrow> int + data_file"
  mkstemp :: "string \<Rightarrow> int \<times> string"
  dladdr :: "64 word \<Rightarrow> Dl_info option"
  indeterminate_info :: "64 word \<Rightarrow> Dl_info"
  indeterminate_header :: ftrace_file_header

definition ENOENT :: int where
  "ENOENT = 2"

text \<open>
  What a command does, in order. \<open>Printf\<close> carries the text of one printf call,
  \<open>Perror\<close> the prefix given to perror (the text of \<open>errno\<close> that follows it on stderr
  is not modelled).
\<close>

datatype event =
    Printf string
  | Perror string
  | Fflush
  | Rename string string
  | Load_symtab string
  | Unload_symtab
  | Fork
  | Execv string "string list" env
  | Abort
  | Waitpid
  | Access string
  | Fopen string
  | Fclose
  | Mkstemp
  | Close int
  | Unlink string

text \<open>
  How a command ends: it returns, or the process image is replaced by execv, or the
  process aborts, or the C code has no defined behaviour (a NULL pointer given to
  strcmp or fopen, a write past a buffer).
\<close>

datatype outcome = Return int | Replaced | Aborted | Undefined

fun stdout_of :: "event list \<Rightarrow> string list" where
  "stdout_of [] = []"
| "stdout_of (Printf s # es) = s # stdout_of es"
| "stdout_of (_ # es) = stdout_of es"

subsection \<open>setup_child_environ\<close>

definition setup_child_environ :: "mcount_h \<Rightarrow> symtab \<Rightarrow> bool \<Rightarrow> opts \<Rightarrow> env \<Rightarrow> env option" where
  "setup_child_environ h tab debug opts e0 = do {
     let old_preload = getenv e0 ''LD_PRELOAD'';
     let old_audit = getenv e0 ''LD_AUDIT'';
     let lib_path = (case lib_path opts of Some l \<Rightarrow> l | None \<Rightarrow> ''.'');
     let buf = snprintf 4096 (lib_path @ ''/'' @ ''libmcount.so'');
     buf \<leftarrow> (case old_preload of
               Some old \<Rightarrow> do { b \<leftarrow> strcat 4096 buf '':''; strcat 4096 b old }
             | None \<Rightarrow> Some buf);
     let e1 = setenv ''LD_PRELOAD'' buf 1 e0;
     let buf = snprintf 4096 (lib_path @ ''/'' @ ''librtld-audit.so'');
     buf \<leftarrow> (case old_audit of
               Some old \<Rightarrow> do { b \<leftarrow> strcat 4096 buf '':''; strcat 4096 b old }
             | None \<Rightarrow> Some buf);
     let e2 = setenv ''LD_AUDIT'' buf 1 e1;
     e3 \<leftarrow> (case filter opts of
              Some f \<Rightarrow> do { buf \<leftarrow> build_addrlist tab 4096 f;
                             Some (setenv ''FTRACE_FILTER'' buf 1 e2) }
            | None \<Rightarrow> Some e2);
     e4 \<leftarrow> (case notrace opts of
              Some f \<Rightarrow> do { buf \<leftarrow> build_addrlist tab 4096 f;
                             Some (setenv ''FTRACE_NOTRACE'' buf 1 e3) }
            | None \<Rightarrow> Some e3);
     fname \<leftarrow> filename opts;
     let e5 = (if fname \<noteq> FTRACE_FILE_NAME h then setenv ''FTRACE_FILE'' fname 1 e4 else e4);
     Some (if debug then setenv ''FTRACE_DEBUG'' ''1'' 1 e5 else e5)
   }"

subsection \<open>command_record\<close>

definition mcount_msg :: "string \<Rightarrow> string \<Rightarrow> string" where
  "mcount_msg a b =
     ''ERROR: Can'' @ [CHR 0x27] @ ''t find '' @ [CHR 0x27] @ a @ [CHR 0x27] @
     '' symbol in the '' @ [CHR 0x27] @ b @ [CHR 0x27] @ ''.\<newline>'' @
     ''It seems not to be compiled with -pg flag which generates traceable code.\<newline>'' @
     ''Please check your binary file.\<newline>''"

text \<open>The part of \<open>command_record\<close> from \<open>fork\<close> on.\<close>

definition record_fork ::
  "mcount_h \<Rightarrow> os \<Rightarrow> symtab \<Rightarrow> bool \<Rightarrow> string list \<Rightarrow> opts \<Rightarrow> string \<Rightarrow> outcome \<times> event list" where
  "record_fork h w tab debug argv opts fname =
     (let pid = fork w in
      if pid < 0 then (Return (- 1), [Fork, Perror ''fork''])
      else if pid = 0 then
        (case setup_child_environ h tab debug opts (environ w) of
           None \<Rightarrow> (Undefined, [Fork])
         | Some e \<Rightarrow>
             if execv_ok w then (Replaced, [Fork, Execv (exename opts) (drop (idx opts) argv) e])
             else (Aborted, [Fork, Execv (exename opts) (drop (idx opts) argv) e, Abort]))
      else
        (let status = waitpid w;
             ev = [Fork, Waitpid] @
                  (if WIFSIGNALED status
                   then [Printf (''child ('' @ exename opts @ '') was terminated by signal: '' @
                                 fmt_d (WTERMSIG status) @ ''\<newline>'')]
                   else [])
         in if access w fname < 0
            then (Return (- 1), ev @ [Access fname, Printf ''Cannot generate data file\<newline>''])
            else (Return 0, ev @ [Access fname])))"

definition command_record ::
  "mcount_h \<Rightarrow> os \<Rightarrow> bool \<Rightarrow> string list \<Rightarrow> opts \<Rightarrow> outcome \<times> event list" where
  "command_record h w debug argv opts =
     (case filename opts of
        None \<Rightarrow> (Undefined, [])
      | Some fname \<Rightarrow>
          (let ev0 = (if FTRACE_FILE_NAME h = fname
                      then [Rename fname (snprintf 512 (fname @ ''.old''))] else []);
               (ret, tab) = load_symtab w (exename opts)
           in if ret < 0 then (Return (- 1), ev0 @ [Load_symtab (exename opts)])
              else (case find_symname tab ''mcount'' of
                      None \<Rightarrow>
                        (Return (- 1),
                         ev0 @ [Load_symtab (exename opts),
                                Printf (mcount_msg ''mcount'' (exename opts))])
                    | Some sy \<Rightarrow>
                        (let (out, ev) = record_fork h w tab debug argv opts fname
                         in (out, ev0 @ [Load_symtab (exename opts), Fflush] @ ev)))))"

subsection \<open>Reading the trace file\<close>

text \<open>
  An open stream on a trace file. \<open>fpos\<close> counts the whole records read since the
  header: the file position is the size of the header plus \<open>fpos\<close> records.
\<close>

record FILE =
  contents :: data_file
  fpos :: nat

text \<open>
  \<open>fread(&header, sizeof(header), 1, fp)\<close>, whose return value ftrace.c ignores: when
  the file is too short the variable keeps indeterminate bytes.
\<close>

definition fread_header :: "ftrace_file_header \<Rightarrow> FILE \<Rightarrow> ftrace_file_header" where
  "fread_header indeterminate fp =
     (case file_header (contents fp) of Some hdr \<Rightarrow> hdr | None \<Rightarrow> indeterminate)"

text \<open>
  \<open>fread(&rstack, sizeof(rstack), 1, fp)\<close> returns the number of whole records
  read, 1 or 0: here \<open>Some\<close> of the record read or \<open>None\<close>, with the stream
  afterwards. A short read, at the end of the file or on a trailing fragment, gives 0.
\<close>

definition fread_rstack :: "FILE \<Rightarrow> mcount_ret_stack option \<times> FILE" where
  "fread_rstack fp =
     (if fpos fp < length (file_records (contents fp))
      then (Some (file_records (contents fp) ! fpos fp), fp\<lparr>fpos := Suc (fpos fp)\<rparr>)
      else (None, fp))"

definition fgetpos :: "FILE \<Rightarrow> nat" where
  "fgetpos fp = fpos fp"

definition fsetpos :: "FILE \<Rightarrow> nat \<Rightarrow> FILE" where
  "fsetpos fp p = fp\<lparr>fpos := p\<rparr>"

subsection \<open>open_data_file\<close>

definition open_data_file ::
  "mcount_h \<Rightarrow> os \<Rightarrow> string \<Rightarrow> string \<Rightarrow> FILE option \<times> event list" where
  "open_data_file h w fname ename =
     (case fopen w fname of
        Inl errno \<Rightarrow>
          (if errno = ENOENT
           then (None, [Fopen fname,
                        Printf (''ERROR: Can'' @ [CHR 0x27] @ ''t find '' @ fname @ '' file!\<newline>'' @
                                ''Was '' @ [CHR 0x27] @ ename @ [CHR 0x27] @
                                '' compiled with -pg flag and ran ftrace record?\<newline>'')])
           else (None, [Fopen fname, Perror ''ftrace'']))
      | Inr df \<Rightarrow>
          (let fp = \<lparr>contents = df, fpos = 0\<rparr>;
               header = fread_header (indeterminate_header w) fp
           in if memcmp (magic header) (FTRACE_MAGIC_STR h) (FTRACE_MAGIC_LEN h) \<noteq> 0
              then (None, [Fopen fname, Printf ''invalid magic string found!\<newline>'', Fclose])
              else if version header \<noteq> FTRACE_VERSION h
              then (None, [Fopen fname, Printf ''invalid vergion number found!\<newline>'', Fclose])
              else (Some fp, [Fopen fname])))"

subsection \<open>print_flat_rstack\<close>

text \<open>
  The name printed for an address by \<open>print_flat_rstack\<close>: the static table first,
  then dladdr, whose return value is not looked at.
\<close>

definition flat_name :: "os \<Rightarrow> symtab \<Rightarrow> 64 word \<Rightarrow> string" where
  "flat_name w tab ip =
     (case (case find_symtab tab ip of Some sy \<Rightarrow> Some (name sy) | None \<Rightarrow> None) of
        Some n \<Rightarrow> n
      | None \<Rightarrow>
          (let info = (case dladdr w ip of Some i \<Rightarrow> i | None \<Rightarrow> indeterminate_info w ip)
           in case dli_sname info of Some n \<Rightarrow> n | None \<Rightarrow> ''unknown''))"

text \<open>The static \<open>count\<close> is passed in and returned.\<close>

definition print_flat_rstack ::
  "os \<Rightarrow> symtab \<Rightarrow> 32 word \<Rightarrow> mcount_ret_stack \<Rightarrow> FILE \<Rightarrow> int \<times> 32 word \<times> FILE \<times> event list" where
  "print_flat_rstack w tab count rstack fp =
     (let parent_name = flat_name w tab (parent_ip rstack);
          child_name = flat_name w tab (child_ip rstack)
      in if end_time rstack = 0
         then (0, count + 1, fp,
               [Printf (''['' @ fmt_d count @ ''] '' @ fmt_d (tid rstack) @ ''/'' @
                        fmt_d (depth rstack) @ '': ip ('' @ parent_name @ '' -> '' @
                        child_name @ ''), time ('' @ fmt_lu (start_time rstack) @ '')\<newline>'')])
         else (0, count + 1, fp,
               [Printf (''['' @ fmt_d count @ ''] '' @ fmt_d (tid rstack) @ ''/'' @
                        fmt_d (depth rstack) @ '': ip ('' @ parent_name @ '' <- '' @
                        child_name @ ''), time ('' @ fmt_lu (end_time rstack) @ '':'' @
                        fmt_lu (end_time rstack - start_time rstack) @ '')\<newline>'')]))"

subsection \<open>print_graph_rstack\<close>

definition graph_name :: "symtab \<Rightarrow> 64 word \<Rightarrow> string" where
  "graph_name tab ip = (case find_symtab tab ip of Some sy \<Rightarrow> name sy | None \<Rightarrow> ''unknown'')"

definition print_graph_rstack ::
  "symtab \<Rightarrow> mcount_ret_stack \<Rightarrow> FILE \<Rightarrow> int \<times> FILE \<times> event list" where
  "print_graph_rstack tab rstack fp =
     (if end_time rstack = 0
      then
        (let pos = fgetpos fp;
             (rd, fp1) = fread_rstack fp
         in case rd of
              None \<Rightarrow> (- 1, fp1, [Perror ''error reading rstack''])
            | Some rstack_next \<Rightarrow>
                if depth rstack_next = depth rstack \<and> end_time rstack_next \<noteq> 0
                then (0, fp1,
                      [Printf (pad_left 4 (fmt_lu (end_time rstack_next - start_time rstack)) @
                               '' usec ['' @ pad_left 5 (fmt_d (tid rstack)) @ ''] | '' @
                               fmt_star_s (depth rstack * 2) [] @
                               graph_name tab (child_ip rstack) @ ''();\<newline>'')])
                else (0, fsetpos fp1 pos,
                      [Printf (pad_left 9 [] @ '' ['' @ pad_left 5 (fmt_d (tid rstack)) @
                               ''] | '' @ fmt_star_s (depth rstack * 2) [] @
                               graph_name tab (child_ip rstack) @ ''() {\<newline>'')]))
      else (0, fp,
            [Printf (pad_left 4 (fmt_lu (end_time rstack - start_time rstack)) @
                     '' usec ['' @ pad_left 5 (fmt_d (tid rstack)) @ ''] | '' @
                     fmt_star_s (depth rstack * 2) [] @ ''} /* '' @
                     graph_name tab (child_ip rstack) @ '' */\<newline>'')]))"

subsection \<open>command_replay\<close>

text \<open>The renderer call in the loop of \<open>command_replay\<close>, with the static counter.\<close>

definition render ::
  "os \<Rightarrow> symtab \<Rightarrow> opts \<Rightarrow> 32 word \<Rightarrow> mcount_ret_stack \<Rightarrow> FILE \<Rightarrow> int \<times> 32 word \<times> FILE \<times> event list" where
  "render w tab opts count rstack fp =
     (if flat opts \<noteq> 0 then print_flat_rstack w tab count rstack fp
      else (let (ret, fp1, ev) = print_graph_rstack tab rstack fp in (ret, count, fp1, ev)))"

lemma render_fpos:
  assumes "render w tab opts count rstack fp = (ret, count1, fp1, ev)"
  shows "contents fp1 = contents fp \<and> fpos fp \<le> fpos fp1"
  using assms
  by (auto simp: render_def print_flat_rstack_def print_graph_rstack_def fread_rstack_def
      fgetpos_def fsetpos_def Let_def split: if_splits option.splits prod.splits)

function replay_loop ::
  "os \<Rightarrow> symtab \<Rightarrow> opts \<Rightarrow> int \<Rightarrow> 32 word \<Rightarrow> FILE \<Rightarrow> int \<times> event list" where
  "replay_loop w tab opts ret count fp =
     (case fread_rstack fp of
        (None, fp1) \<Rightarrow> (ret, [])
      | (Some rstack, fp1) \<Rightarrow>
          (case render w tab opts count rstack fp1 of
             (ret1, count1, fp2, ev) \<Rightarrow>
               if ret1 \<noteq> 0 then (ret1, ev)
               else (case replay_loop w tab opts ret1 count1 fp2 of
                       (r, evs) \<Rightarrow> (r, ev @ evs))))"
  by pat_completeness auto
termination
proof (relation "measure (\<lambda>(w, tab, opts, ret, count, fp).
          length (file_records (contents fp)) - fpos fp)", goal_cases)
  case 1
  show ?case by simp
next
  case (2 w tab opts ret count fp rd fp1 rstack ret1 rest count1 rest1 fp2 ev)
  from 2(1,2) have rd: "fpos fp < length (file_records (contents fp))"
    and fp1: "fp1 = fp\<lparr>fpos := Suc (fpos fp)\<rparr>"
    by (auto simp: fread_rstack_def split: if_splits)
  from 2(3,4,5) have "render w tab opts count rstack fp1 = (ret1, count1, fp2, ev)"
    by simp
  from render_fpos [OF this] have "contents fp2 = contents fp" "Suc (fpos fp) \<le> fpos fp2"
    by (simp_all add: fp1)
  with rd show ?case by simp
qed

declare replay_loop.simps [simp del]

definition command_replay :: "mcount_h \<Rightarrow> os \<Rightarrow> opts \<Rightarrow> outcome \<times> event list" where
  "command_replay h w opts =
     (case filename opts of
        None \<Rightarrow> (Undefined, [])
      | Some fname \<Rightarrow>
          (case open_data_file h w fname (exename opts) of
             (None, ev0) \<Rightarrow> (Return (- 1), ev0)
           | (Some fp, ev0) \<Rightarrow>
               (let (ret, tab) = load_symtab w (exename opts)
                in if ret < 0 then (Return ret, ev0 @ [Load_symtab (exename opts), Fclose])
                   else (let (ret1, ev) = replay_loop w tab opts ret 0 fp
                         in (Return ret1,
                             ev0 @ [Load_symtab (exename opts)] @ ev @ [Unload_symtab, Fclose])))))"

subsection \<open>command_live\<close>

definition command_live ::
  "mcount_h \<Rightarrow> os \<Rightarrow> bool \<Rightarrow> string list \<Rightarrow> opts \<Rightarrow> outcome \<times> event list" where
  "command_live h w debug argv opts =
     (let (fd, template) = mkstemp w ''/tmp/ftrace-live-XXXXXX'' in
      if fd < 0 then (Return (- 1), [Mkstemp, Perror ''live command cannot be run''])
      else
        (let opts1 = opts\<lparr>filename := Some template\<rparr>;
             (rec, ev1) = command_record h w debug argv opts1
         in case rec of
              Return r \<Rightarrow>
                (if r = 0
                 then (case command_replay h w opts1 of
                         (Return r2, ev2) \<Rightarrow>
                           (Return 0, [Mkstemp, Close fd] @ ev1 @ ev2 @ [Unlink template])
                       | (out, ev2) \<Rightarrow> (out, [Mkstemp, Close fd] @ ev1 @ ev2))
                 else (Return 0, [Mkstemp, Close fd] @ ev1 @ [Unlink template]))
            | out \<Rightarrow> (out, [Mkstemp, Close fd] @ ev1)))"

section \<open>The flat line as the specification words it\<close>

text \<open>
  One line holds the counter, the thread id and the depth, then an entry arrow
  \<open>parent -> child\<close> with the start time when \<open>end_time\<close> is 0, and otherwise an
  exit arrow \<open>parent <- child\<close> with the end time and the elapsed time
  \<open>end_time - start_time\<close>.
\<close>

definition flat_line_spec :: "string \<Rightarrow> mcount_ret_stack \<Rightarrow> string \<Rightarrow> string \<Rightarrow> string" where
  "flat_line_spec counter r parent child =
     ''['' @ counter @ ''] '' @ fmt_d (tid r) @ ''/'' @ fmt_d (depth r) @ '': ip ('' @
     (if end_time r = 0
      then parent @ '' -> '' @ child @ ''), time ('' @ fmt_lu (start_time r)
      else parent @ '' <- '' @ child @ ''), time ('' @ fmt_lu (end_time r) @ '':'' @
           fmt_lu (end_time r - start_time r)) @
     '')\<newline>''"

section \<open>How the replay loop can end\<close>

text \<open>
  A clean end: the loop gives 0 and no perror was called. A stream error: the loop
  gives -1 and the last thing done was the perror of the failed lookahead read.
\<close>

definition clean_end :: "int \<times> event list \<Rightarrow> bool" where
  "clean_end res = (fst res = 0 \<and> (\<forall>s. Perror s \<notin> set (snd res)))"

definition stream_error :: "int \<times> event list \<Rightarrow> bool" where
  "stream_error res =
     (fst res = - 1 \<and> snd res \<noteq> [] \<and> last (snd res) = Perror ''error reading rstack'')"

section \<open>The address list as the specification words it\<close>

text \<open>
  The names are the non-empty pieces of the option between commas and colons, in
  order. The list joins the addresses of the names that resolve; a name that does
  not resolve contributes nothing; every address but that of the first name is
  preceded by a colon, whether or not the first name resolved.
\<close>

fun split_acc :: "string \<Rightarrow> string \<Rightarrow> string list" where
  "split_acc cur [] = (if cur = [] then [] else [cur])"
| "split_acc cur (c # cs) =
     (if c \<in> set '',:'' then (if cur = [] then [] else [cur]) @ split_acc [] cs
      else split_acc (cur @ [c]) cs)"

definition split_names :: "string \<Rightarrow> string list" where
  "split_names s = split_acc [] s"

fun addrlist_spec :: "symtab \<Rightarrow> bool \<Rightarrow> string list \<Rightarrow> string" where
  "addrlist_spec tab first [] = []"
| "addrlist_spec tab first (n # ns) =
     (case find_symname tab n of
        Some sy \<Rightarrow> (if first then [] else '':'') @ fmt_hash_lx (addr sy)
      | None \<Rightarrow> []) @ addrlist_spec tab False ns"

section \<open>Example inputs\<close>

text \<open>
  Concrete values at which the theorems below are instantiated. The macro values
  and the table are examples, not read off the sources: a table that finds a symbol
  by its exact name and by its exact address.
\<close>

definition example_h :: mcount_h where
  "example_h = \<lparr>FTRACE_MAGIC_STR = ''Ftrace!'' @ [CHR 0x00], FTRACE_MAGIC_LEN = 8,
                 FTRACE_VERSION = 1, FTRACE_FILE_NAME = ''ftrace.data''\<rparr>"

definition table_of :: "sym list \<Rightarrow> symtab" where
  "table_of syms = \<lparr>find_symname = (\<lambda>n. find (\<lambda>s. name s = n) syms),
                    find_symtab = (\<lambda>a. find (\<lambda>s. addr s = a) syms)\<rparr>"

definition filter_tab :: symtab where
  "filter_tab = table_of [\<lparr>name = ''mcount'', addr = 0x400\<rparr>, \<lparr>name = ''foo'', addr = 0x1000\<rparr>]"

definition replay_tab :: symtab where
  "replay_tab = table_of [\<lparr>name = ''main'', addr = 0x400500\<rparr>, \<lparr>name = ''foo'', addr = 0x400600\<rparr>,
                          \<lparr>name = ''bar'', addr = 0x400700\<rparr>]"

text \<open>
  The six records of one thread: main calls foo, foo calls bar, and the three
  return.
\<close>

definition example_records :: "mcount_ret_stack list" where
  "example_records =
     [\<lparr>parent_ip = 0x7000, child_ip = 0x400500, start_time = 100, end_time = 0, tid = 1234, depth = 0\<rparr>,
      \<lparr>parent_ip = 0x400500, child_ip = 0x400600, start_time = 110, end_time = 0, tid = 1234, depth = 1\<rparr>,
      \<lparr>parent_ip = 0x400600, child_ip = 0x400700, start_time = 120, end_time = 0, tid = 1234, depth = 2\<rparr>,
      \<lparr>parent_ip = 0x400600, child_ip = 0x400700, start_time = 120, end_time = 125, tid = 1234, depth = 2\<rparr>,
      \<lparr>parent_ip = 0x400500, child_ip = 0x400600, start_time = 110, end_time = 140, tid = 1234, depth = 1\<rparr>,
      \<lparr>parent_ip = 0x7000, child_ip = 0x400500, start_time = 100, end_time = 160, tid = 1234, depth = 0\<rparr>]"

definition example_file :: data_file where
  "example_file = \<lparr>file_header = Some \<lparr>magic = ''Ftrace!'' @ [CHR 0x00], version = 1\<rparr>,
                    file_records = example_records, file_tail = []\<rparr>"

definition example_os :: os where
  "example_os =
     \<lparr>environ = [], load_symtab = (\<lambda>e. (0, replay_tab)), fork = 4321, execv_ok = True,
      waitpid = 0, access = (\<lambda>f. 0),
      fopen = (\<lambda>f. if f = ''ftrace.data'' then Inr example_file else Inl ENOENT),
      mkstemp = (\<lambda>t. (3, ''/tmp/ftrace-live-abcdef'')),
      dladdr = (\<lambda>a. if a = 0x7000 then Some \<lparr>dli_sname = Some ''__libc_start_main''\<rparr>
                    else if a = 0x7100 then Some \<lparr>dli_sname = Some ''puts''\<rparr> else None),
      indeterminate_info = (\<lambda>a. \<lparr>dli_sname = None\<rparr>),
      indeterminate_header = \<lparr>magic = [], version = 0\<rparr>\<rparr>"

definition example_opts :: opts where
  "example_opts = \<lparr>lib_path = None, filter = None, notrace = None, exename = ''./a.out'',
                    filename = Some ''ftrace.data'', mode = 2, flat = 0, idx = 2\<rparr>"

text \<open>
  The example file with three stray bytes after its last record, and a file that
  stops after a lone entry record.
\<close>

definition fragment_file :: data_file where
  "fragment_file = example_file\<lparr>file_tail := ''abc''\<rparr>"

definition lone_entry_file :: data_file where
  "lone_entry_file = example_file\<lparr>file_records := take 1 example_records\<rparr>"

definition fragment_os :: os where
  "fragment_os = example_os\<lparr>fopen := (\<lambda>f. Inr fragment_file)\<rparr>"

definition lone_entry_os :: os where
  "lone_entry_os = example_os\<lparr>fopen := (\<lambda>f. Inr lone_entry_file)\<rparr>"

text \<open>
  Systems for the ways opening the trace file can go: an open that fails with
  EACCES, a file whose magic differs in its first byte, a file of version 2.
\<close>

definition denied_os :: os where
  "denied_os = example_os\<lparr>fopen := (\<lambda>f. Inl 13)\<rparr>"

definition bad_magic_file :: data_file where
  "bad_magic_file = example_file\<lparr>file_header := Some \<lparr>magic = ''ftrace!'' @ [CHR 0x00], version = 1\<rparr>\<rparr>"

definition bad_magic_os :: os where
  "bad_magic_os = example_os\<lparr>fopen := (\<lambda>f. Inr bad_magic_file)\<rparr>"

definition bad_version_file :: data_file where
  "bad_version_file = example_file\<lparr>file_header := Some \<lparr>magic = ''Ftrace!'' @ [CHR 0x00], version = 2\<rparr>\<rparr>"

definition bad_version_os :: os where
  "bad_version_os = example_os\<lparr>fopen := (\<lambda>f. Inr bad_version_file)\<rparr>"

text \<open>
  A file of 11 bytes, the magic and the first three bytes of the version of the
  example header: one byte short of a header. The unchecked fread stores the 11
  bytes and leaves the last byte of the variable as it was; in \<open>short_os\<close> that
  stale byte is 0, so that the variable reads as the example header.
\<close>

definition short_file :: data_file where
  "short_file = \<lparr>file_header = None, file_records = [],
                  file_tail = ''Ftrace!'' @ [CHR 0x00, CHR 0x01, CHR 0x00, CHR 0x00]\<rparr>"

definition short_os :: os where
  "short_os = example_os\<lparr>fopen := (\<lambda>f. Inr short_file),
                           indeterminate_header := \<lparr>magic = ''Ftrace!'' @ [CHR 0x00], version = 1\<rparr>\<rparr>"

text \<open>
  Options and an environment for the child: a library path, a filter list, a trace
  file other than the default; \<open>LD_PRELOAD\<close> and \<open>FTRACE_NOTRACE\<close> already set.
\<close>

definition child_opts :: opts where
  "child_opts = example_opts\<lparr>lib_path := Some ''/opt/ftrace'', filter := Some ''foo,bar'',
                              filename := Some ''out.data''\<rparr>"

definition child_env :: env where
  "child_env = [(''LD_PRELOAD'', ''/lib/libfoo.so''), (''FTRACE_NOTRACE'', ''0x2000'')]"

text \<open>
  A trace of main calling \<open>puts\<close>, a function of a shared library: its address is
  not in the static table, and dladdr knows it.
\<close>

definition puts_file :: data_file where
  "puts_file = example_file\<lparr>file_records :=
     [\<lparr>parent_ip = 0x400500, child_ip = 0x7100, start_time = 200, end_time = 0, tid = 1234, depth = 1\<rparr>,
      \<lparr>parent_ip = 0x400500, child_ip = 0x7100, start_time = 200, end_time = 207, tid = 1234, depth = 1\<rparr>]\<rparr>"

definition puts_os :: os where
  "puts_os = example_os\<lparr>fopen := (\<lambda>f. Inr puts_file)\<rparr>"

text \<open>
  A system in which the target has the probe symbol, so that recording goes on to
  fork, and every file opens as the example file.
\<close>

definition live_tab :: symtab where
  "live_tab = table_of [\<lparr>name = ''mcount'', addr = 0x400400\<rparr>, \<lparr>name = ''main'', addr = 0x400500\<rparr>,
                        \<lparr>name = ''foo'', addr = 0x400600\<rparr>, \<lparr>name = ''bar'', addr = 0x400700\<rparr>]"

definition live_os :: os where
  "live_os = example_os\<lparr>load_symtab := (\<lambda>e. (0, live_tab)), fopen := (\<lambda>f. Inr example_file)\<rparr>"

section \<open>Properties\<close>

subsection \<open>Steps of the replay loop\<close>

lemma replay_loop_eof:
  "\<not> fpos fp < length (file_records (contents fp)) \<Longrightarrow>
   replay_loop w tab opts ret count fp = (ret, [])"
  by (subst replay_loop.simps) (simp add: fread_rstack_def)

lemma replay_loop_step:
  "fpos fp < length (file_records (contents fp)) \<Longrightarrow>
   replay_loop w tab opts ret count fp =
     (case render w tab opts count (file_records (contents fp) ! fpos fp)
             (fp\<lparr>fpos := Suc (fpos fp)\<rparr>) of
        (ret1, count1, fp2, ev) \<Rightarrow>
          if ret1 \<noteq> 0 then (ret1, ev)
          else (case replay_loop w tab opts ret1 count1 fp2 of (r, evs) \<Rightarrow> (r, ev @ evs)))"
  by (subst replay_loop.simps) (simp add: fread_rstack_def)

subsection \<open>Filter address lists\<close>

lemma split_acc_unfold:
  "split_acc cur s =
     (if cur @ takeWhile (\<lambda>c. c \<notin> set '',:'') s = [] then []
      else [cur @ takeWhile (\<lambda>c. c \<notin> set '',:'') s]) @
     split_acc [] (drop 1 (dropWhile (\<lambda>c. c \<notin> set '',:'') s))"
  by (induction s arbitrary: cur) auto

lemma split_acc_skip:
  "split_acc [] s = split_acc [] (dropWhile (\<lambda>c. c \<in> set '',:'') s)"
  by (induction s) auto

lemma strtok_split:
  "fst (strtok None '',:'' saved) = (case split_names saved of [] \<Rightarrow> None | t # ts \<Rightarrow> Some t) \<and>
   split_names (snd (strtok None '',:'' saved)) = tl (split_names saved)"
proof -
  let ?s' = "dropWhile (\<lambda>c. c \<in> set '',:'') saved"
  have sk: "split_names saved = split_acc [] ?s'"
    unfolding split_names_def by (rule split_acc_skip)
  show ?thesis
  proof (cases "?s' = []")
    case True
    then show ?thesis
      unfolding sk by (simp add: strtok_def split_names_def del: dropWhile_eq_Nil_conv)
  next
    case False
    then have "hd ?s' \<notin> set '',:''"
      using hd_dropWhile [of "\<lambda>c. c \<in> set '',:''" saved] by blast
    then have tw: "takeWhile (\<lambda>c. c \<notin> set '',:'') ?s' \<noteq> []"
      using False by (cases ?s') auto
    have un: "split_acc [] ?s' =
        takeWhile (\<lambda>c. c \<notin> set '',:'') ?s' #
        split_acc [] (drop 1 (dropWhile (\<lambda>c. c \<notin> set '',:'') ?s'))"
      using split_acc_unfold [of "[]" ?s'] tw by simp
    show ?thesis
      using False unfolding sk un
      by (simp add: strtok_def Let_def split_names_def del: dropWhile_eq_Nil_conv)
  qed
qed

lemma strtok_tokens:
  "(case fst (strtok None '',:'' s) of None \<Rightarrow> []
    | Some t \<Rightarrow> t # split_names (snd (strtok None '',:'' s))) = split_names s"
  using strtok_split [of s] by (cases "split_names s") simp_all

lemma hex_digits_length: "0 < k \<Longrightarrow> n < 16 ^ k \<Longrightarrow> length (hex_digits n) \<le> k"
proof (induction k arbitrary: n)
  case 0
  then show ?case by simp
next
  case (Suc k)
  show ?case
  proof (cases "n < 16")
    case True
    then show ?thesis by (subst hex_digits.simps) simp
  next
    case False
    then have k: "0 < k" using Suc.prems by (cases k) auto
    have "n div 16 < 16 ^ k" using Suc.prems by (simp add: less_mult_imp_div_less mult.commute)
    from Suc.IH [OF k this] False show ?thesis by (subst hex_digits.simps) simp
  qed
qed

lemma fmt_hash_lx_length: "length (fmt_hash_lx x) \<le> 18"
proof -
  have "unat x < 16 ^ 16" using unsigned_less [of x, where 'a = nat] by simp
  from hex_digits_length [OF _ this] show ?thesis by (simp add: fmt_hash_lx_def)
qed

lemma snprintf_tmp:
  "snprintf 64 (fmt_hash_lx x) = fmt_hash_lx x"
  "snprintf 64 (CHR '':'' # fmt_hash_lx x) = CHR '':'' # fmt_hash_lx x"
  using fmt_hash_lx_length [of x] by (simp_all add: snprintf_def)

lemma build_addrlist_loop_spec:
  "length (buf @ addrlist_spec tab (p \<noteq> None)
             (case fname of None \<Rightarrow> [] | Some fn \<Rightarrow> fn # split_names saved)) < cap \<Longrightarrow>
   build_addrlist_loop tab cap buf p fname saved =
     Some (buf @ addrlist_spec tab (p \<noteq> None)
             (case fname of None \<Rightarrow> [] | Some fn \<Rightarrow> fn # split_names saved))"
proof (induction tab cap buf p fname saved rule: build_addrlist_loop.induct)
  case (1 tab cap buf p fname saved)
  show ?case
  proof (cases fname)
    case None
    then show ?thesis by (subst build_addrlist_loop.simps) simp
  next
    case (Some fn)
    let ?piece = "(case find_symname tab fn of
        Some sy \<Rightarrow> (if p \<noteq> None then [] else '':'') @ fmt_hash_lx (addr sy) | None \<Rightarrow> [])"
    let ?next = "strtok None '',:'' saved"
    have toks: "(case fst ?next of None \<Rightarrow> [] | Some t \<Rightarrow> t # split_names (snd ?next)) =
        split_names saved"
      by (rule strtok_tokens)
    have len: "length ((buf @ ?piece) @ addrlist_spec tab False (split_names saved)) < cap"
      using "1.prems" Some by (cases p; cases "find_symname tab fn") simp_all
    have step: "(case find_symname tab fn of
                   Some sy \<Rightarrow>
                     strcat cap buf
                       (snprintf 64 ((if p \<noteq> None then [] else '':'') @ fmt_hash_lx (addr sy)))
                 | None \<Rightarrow> Some buf) = Some (buf @ ?piece)"
      using len by (cases p; cases "find_symname tab fn") (simp_all add: snprintf_tmp strcat_def)
    have rec: "build_addrlist_loop tab cap (buf @ ?piece) None (fst ?next) (snd ?next) =
        Some ((buf @ ?piece) @ addrlist_spec tab False (split_names saved))"
      using "1.IH" [OF Some step] len by (simp add: toks)
    have out: "(buf @ ?piece) @ addrlist_spec tab False (split_names saved) =
        buf @ addrlist_spec tab (p \<noteq> None) (fn # split_names saved)"
      by (cases p; cases "find_symname tab fn") simp_all
    have "build_addrlist_loop tab cap buf p (Some fn) saved =
        Some ((buf @ ?piece) @ addrlist_spec tab False (split_names saved))"
      by (subst build_addrlist_loop.simps) (simp only: option.case step rec)
    then show ?thesis
      unfolding out Some by simp
  qed
qed

lemma build_addrlist_spec:
  assumes "length (addrlist_spec tab True (split_names symlist)) < cap"
  shows "build_addrlist tab cap symlist = Some (addrlist_spec tab True (split_names symlist))"
proof -
  have same: "strtok (Some symlist) '',:'' [] = strtok None '',:'' symlist"
    by (simp add: strtok_def)
  have toks: "(case fst (strtok None '',:'' symlist) of None \<Rightarrow> []
               | Some t \<Rightarrow> t # split_names (snd (strtok None '',:'' symlist))) = split_names symlist"
    by (rule strtok_tokens)
  show ?thesis
    using build_addrlist_loop_spec [where buf = "[]" and tab = tab and p = "Some symlist"
        and fname = "fst (strtok None '',:'' symlist)"
        and saved = "snd (strtok None '',:'' symlist)" and cap = cap] assms
    by (simp add: build_addrlist_def same toks)
qed

lemma fmt_hash_lx_0x1000: "fmt_hash_lx 0x1000 = ''0x1000''"
  by code_simp

lemma split_names_examples:
  "split_names ''foo,bar'' = [''foo'', ''bar'']" "split_names ''bar,foo'' = [''bar'', ''foo'']"
  by code_simp+

text \<open>
  C3. \<open>build_addrlist\<close> turns the comma- or colon-separated names, in order, into
  the colon-joined list of the addresses of those that resolve, whenever the list
  fits the buffer: an unresolved name adds nothing, and only an address that comes
  from the first name goes without a colon before it. So with \<open>foo\<close> resolved to
  0x1000 and \<open>bar\<close> unresolved, \<open>foo,bar\<close> gives exactly \<open>0x1000\<close>, and \<open>bar,foo\<close>
  gives exactly \<open>:0x1000\<close>.
\<close>

theorem build_addrlist_filter_list:
  "(length (addrlist_spec tab True (split_names symlist)) < cap \<longrightarrow>
      build_addrlist tab cap symlist = Some (addrlist_spec tab True (split_names symlist))) \<and>
   (find_symname tab ''foo'' = Some sy \<and> addr sy = 0x1000 \<and> find_symname tab ''bar'' = None \<longrightarrow>
      build_addrlist tab 4096 ''foo,bar'' = Some ''0x1000'' \<and>
      build_addrlist tab 4096 ''bar,foo'' = Some '':0x1000'')"
proof (intro conjI impI)
  assume "length (addrlist_spec tab True (split_names symlist)) < cap"
  then show "build_addrlist tab cap symlist = Some (addrlist_spec tab True (split_names symlist))"
    by (rule build_addrlist_spec)
next
  assume "find_symname tab ''foo'' = Some sy \<and> addr sy = 0x1000 \<and> find_symname tab ''bar'' = None"
  then have a: "addrlist_spec tab True [''foo'', ''bar''] = ''0x1000''"
    and b: "addrlist_spec tab True [''bar'', ''foo''] = '':0x1000''"
    by (simp_all add: fmt_hash_lx_0x1000)
  show "build_addrlist tab 4096 ''foo,bar'' = Some ''0x1000''"
    using build_addrlist_spec [of tab "''foo,bar''" 4096, unfolded split_names_examples a]
    by simp
  show "build_addrlist tab 4096 ''bar,foo'' = Some '':0x1000''"
    using build_addrlist_spec [of tab "''bar,foo''" 4096, unfolded split_names_examples b]
    by simp
qed

theorem build_addrlist_filter_list_witness:
  "length (addrlist_spec filter_tab True (split_names ''foo:bar,,foo'')) < 4096 \<and>
   build_addrlist filter_tab 4096 ''foo:bar,,foo'' = Some ''0x1000:0x1000'' \<and>
   find_symname filter_tab ''foo'' = Some \<lparr>name = ''foo'', addr = 0x1000\<rparr> \<and>
   addr \<lparr>name = ''foo'', addr = 0x1000\<rparr> = 0x1000 \<and>
   find_symname filter_tab ''bar'' = None \<and>
   build_addrlist filter_tab 4096 ''foo,bar'' = Some ''0x1000'' \<and>
   build_addrlist filter_tab 4096 ''bar,foo'' = Some '':0x1000''"
proof -
  have s: "addrlist_spec filter_tab True (split_names ''foo:bar,,foo'') = ''0x1000:0x1000''"
    by code_simp
  have f: "find_symname filter_tab ''foo'' = Some \<lparr>name = ''foo'', addr = 0x1000\<rparr>"
    "find_symname filter_tab ''bar'' = None"
    by code_simp+
  show ?thesis
    using build_addrlist_filter_list [of filter_tab "''foo:bar,,foo''" 4096
        "\<lparr>name = ''foo'', addr = 0x1000\<rparr>"] s f
    by simp
qed

subsection \<open>The graph renderer on the six records\<close>

text \<open>
  C1, as amended. For the six records enter(main), enter(foo), enter(bar),
  exit(bar), exit(foo), exit(main) of one thread, with entry times \<open>t0\<close>, \<open>t1\<close>,
  \<open>t2\<close> and non-zero exit times \<open>t3\<close>, \<open>t4\<close>, \<open>t5\<close>, the graph renderer prints
  exactly five lines, in this order: the opening line of main, the opening line of
  foo, one collapsed line for bar with duration \<open>t3 - t2\<close>, the closing line of foo
  with duration \<open>t4 - t1\<close>, the closing line of main with duration \<open>t5 - t0\<close>; the
  loop ends with 0.
\<close>

theorem graph_leaf_collapsing:
  assumes "flat opts = 0"
    and "t3 \<noteq> 0" and "t4 \<noteq> 0" and "t5 \<noteq> 0"
    and "graph_name tab a_main = ''main''" and "graph_name tab a_foo = ''foo''"
    and "graph_name tab a_bar = ''bar''"
  shows "replay_loop w tab opts ret count
           \<lparr>contents = \<lparr>file_header = hdr,
              file_records =
               [\<lparr>parent_ip = p0, child_ip = a_main, start_time = t0, end_time = 0, tid = T, depth = d0\<rparr>,
                \<lparr>parent_ip = a_main, child_ip = a_foo, start_time = t1, end_time = 0, tid = T, depth = d1\<rparr>,
                \<lparr>parent_ip = a_foo, child_ip = a_bar, start_time = t2, end_time = 0, tid = T, depth = d2\<rparr>,
                \<lparr>parent_ip = a_foo, child_ip = a_bar, start_time = t2, end_time = t3, tid = T, depth = d2\<rparr>,
                \<lparr>parent_ip = a_main, child_ip = a_foo, start_time = t1, end_time = t4, tid = T, depth = d1\<rparr>,
                \<lparr>parent_ip = p0, child_ip = a_main, start_time = t0, end_time = t5, tid = T, depth = d0\<rparr>],
              file_tail = frag\<rparr>, fpos = 0\<rparr> =
         (0, [Printf (replicate 9 CHR '' '' @ '' ['' @ pad_left 5 (fmt_d T) @ ''] | '' @
                      fmt_star_s (d0 * 2) [] @ ''main() {\<newline>''),
              Printf (replicate 9 CHR '' '' @ '' ['' @ pad_left 5 (fmt_d T) @ ''] | '' @
                      fmt_star_s (d1 * 2) [] @ ''foo() {\<newline>''),
              Printf (pad_left 4 (fmt_lu (t3 - t2)) @ '' usec ['' @ pad_left 5 (fmt_d T) @ ''] | '' @
                      fmt_star_s (d2 * 2) [] @ ''bar();\<newline>''),
              Printf (pad_left 4 (fmt_lu (t4 - t1)) @ '' usec ['' @ pad_left 5 (fmt_d T) @ ''] | '' @
                      fmt_star_s (d1 * 2) [] @ ''} /* foo */\<newline>''),
              Printf (pad_left 4 (fmt_lu (t5 - t0)) @ '' usec ['' @ pad_left 5 (fmt_d T) @ ''] | '' @
                      fmt_star_s (d0 * 2) [] @ ''} /* main */\<newline>'')])"
  using assms
  by (simp add: replay_loop_step replay_loop_eof render_def print_graph_rstack_def fread_rstack_def
      fgetpos_def fsetpos_def pad_left_def)


theorem graph_leaf_collapsing_witness:
  "flat example_opts = 0 \<and> (125 :: 64 word) \<noteq> 0 \<and> (140 :: 64 word) \<noteq> 0 \<and> (160 :: 64 word) \<noteq> 0 \<and>
   graph_name replay_tab 0x400500 = ''main'' \<and> graph_name replay_tab 0x400600 = ''foo'' \<and>
   graph_name replay_tab 0x400700 = ''bar'' \<and>
   replay_loop example_os replay_tab example_opts 0 0 \<lparr>contents = example_file, fpos = 0\<rparr> =
     (0, [Printf ''          [ 1234] | main() {\<newline>'',
          Printf ''          [ 1234] |   foo() {\<newline>'',
          Printf ''   5 usec [ 1234] |     bar();\<newline>'',
          Printf ''  30 usec [ 1234] |   } /* foo */\<newline>'',
          Printf ''  60 usec [ 1234] | } /* main */\<newline>''])"
proof -
  have h1: "flat example_opts = 0" by (simp add: example_opts_def)
  have h2: "graph_name replay_tab 0x400500 = ''main''" by code_simp
  have h3: "graph_name replay_tab 0x400600 = ''foo''" by code_simp
  have h4: "graph_name replay_tab 0x400700 = ''bar''" by code_simp
  have t: "(125 :: 64 word) \<noteq> 0" "(140 :: 64 word) \<noteq> 0" "(160 :: 64 word) \<noteq> 0" by simp_all
  have p: "pad_left 5 (fmt_d 1234) = '' 1234''" "fmt_star_s (0 * 2) [] = []"
    "fmt_star_s (1 * 2) [] = ''  ''" "fmt_star_s (2 * 2) [] = ''    ''"
    "pad_left 4 (fmt_lu (125 - 120)) = ''   5''" "pad_left 4 (fmt_lu (140 - 110)) = ''  30''"
    "pad_left 4 (fmt_lu (160 - 100)) = ''  60''" "replicate 9 CHR '' '' = ''         ''"
    by code_simp+
  show ?thesis
    using graph_leaf_collapsing [of example_opts 125 140 160 replay_tab "0x400500" "0x400600"
        "0x400700" example_os 0 0 "Some \<lparr>magic = ''Ftrace!'' @ [CHR 0x00], version = 1\<rparr>"
        "0x7000" 100 1234 0 110 1 120 2 "[]", OF h1 t h2 h3 h4]
      h1 h2 h3 h4 p
    by (simp add: example_file_def example_records_def)
qed

text \<open>
  C1 as stated speaks of exactly 4 lines. On the example file the replay prints the
  five lines it goes on to list, not four.
\<close>

theorem graph_four_lines_counterexample:
  "stdout_of (snd (command_replay example_h example_os example_opts)) =
     [''          [ 1234] | main() {\<newline>'',
      ''          [ 1234] |   foo() {\<newline>'',
      ''   5 usec [ 1234] |     bar();\<newline>'',
      ''  30 usec [ 1234] |   } /* foo */\<newline>'',
      ''  60 usec [ 1234] | } /* main */\<newline>''] \<and>
   length (stdout_of (snd (command_replay example_h example_os example_opts))) \<noteq> 4"
  by code_simp

subsection \<open>The flat renderer\<close>

lemma render_flat:
  "flat opts \<noteq> 0 \<Longrightarrow>
   render w tab opts count r fp =
     (0, count + 1, fp,
      [Printf (flat_line_spec (fmt_d count) r (flat_name w tab (parent_ip r))
                 (flat_name w tab (child_ip r)))])"
  by (simp add: render_def print_flat_rstack_def flat_line_spec_def)

lemma flat_loop:
  assumes "flat opts \<noteq> 0"
  shows "replay_loop w tab opts ret count fp =
           (if fpos fp < length (file_records (contents fp)) then 0 else ret,
            map (\<lambda>i. Printf (flat_line_spec (fmt_d (count + word_of_nat i))
                                (file_records (contents fp) ! (fpos fp + i))
                                (flat_name w tab (parent_ip (file_records (contents fp) ! (fpos fp + i))))
                                (flat_name w tab (child_ip (file_records (contents fp) ! (fpos fp + i))))))
              [0..<length (file_records (contents fp)) - fpos fp])"
proof (induction "length (file_records (contents fp)) - fpos fp" arbitrary: fp count ret)
  case 0
  then show ?case by (simp add: replay_loop_eof)
next
  case (Suc n)
  let ?fp1 = "fp\<lparr>fpos := Suc (fpos fp)\<rparr>"
  from Suc.hyps(2) have lt: "fpos fp < length (file_records (contents fp))" by simp
  from Suc.hyps(2) have n: "n = length (file_records (contents ?fp1)) - fpos ?fp1" by simp
  have len: "length (file_records (contents fp)) - fpos fp = Suc n" using Suc.hyps(2) by simp
  have n': "length (file_records (contents fp)) - Suc (fpos fp) = n" using len by simp
  have upt: "[0..<Suc n] = 0 # map Suc [0..<n]"
    by (simp add: upt_conv_Cons map_Suc_upt del: upt_Suc)
  have step: "replay_loop w tab opts ret count fp =
      (case replay_loop w tab opts 0 (count + 1) ?fp1 of
         (r, evs) \<Rightarrow>
           (r, [Printf (flat_line_spec (fmt_d count) (file_records (contents fp) ! fpos fp)
                  (flat_name w tab (parent_ip (file_records (contents fp) ! fpos fp)))
                  (flat_name w tab (child_ip (file_records (contents fp) ! fpos fp))))] @ evs))"
    by (simp add: replay_loop_step [OF lt] render_flat [OF assms])
  show ?case
    unfolding step Suc.hyps(1) [OF n] len upt
    using lt n' by (simp add: o_def add.assoc del: upt_Suc)
qed




subsection \<open>The end of the stream\<close>

lemma print_graph_exit:
  "end_time r \<noteq> 0 \<Longrightarrow> \<exists>s. print_graph_rstack tab r fp = (0, fp, [Printf s])"
  by (simp add: print_graph_rstack_def)

lemma print_graph_eof:
  "end_time r = 0 \<Longrightarrow> \<not> fpos fp < length (file_records (contents fp)) \<Longrightarrow>
   print_graph_rstack tab r fp = (- 1, fp, [Perror ''error reading rstack''])"
  by (simp add: print_graph_rstack_def fread_rstack_def fgetpos_def)

lemma print_graph_leaf:
  "end_time r = 0 \<Longrightarrow> fpos fp < length (file_records (contents fp)) \<Longrightarrow>
   depth (file_records (contents fp) ! fpos fp) = depth r \<Longrightarrow>
   end_time (file_records (contents fp) ! fpos fp) \<noteq> 0 \<Longrightarrow>
   \<exists>s. print_graph_rstack tab r fp = (0, fp\<lparr>fpos := Suc (fpos fp)\<rparr>, [Printf s])"
  by (simp add: print_graph_rstack_def fread_rstack_def fgetpos_def)

lemma print_graph_open:
  "end_time r = 0 \<Longrightarrow> fpos fp < length (file_records (contents fp)) \<Longrightarrow>
   \<not> (depth (file_records (contents fp) ! fpos fp) = depth r \<and>
      end_time (file_records (contents fp) ! fpos fp) \<noteq> 0) \<Longrightarrow>
   \<exists>s. print_graph_rstack tab r fp = (0, fp, [Printf s])"
  by (auto simp: print_graph_rstack_def fread_rstack_def fgetpos_def fsetpos_def)

lemma clean_end_Printf:
  "clean_end res \<Longrightarrow> clean_end (case res of (r, evs) \<Rightarrow> (r, Printf s # evs))"
  by (cases res) (simp add: clean_end_def)

lemma stream_error_Printf:
  "stream_error res \<Longrightarrow> stream_error (case res of (r, evs) \<Rightarrow> (r, Printf s # evs))"
  by (cases res) (simp add: stream_error_def)

lemma last_at_end:
  assumes "i < length xs" and "\<not> Suc i < length xs"
  shows "last xs = xs ! i"
proof -
  from assms have "length xs = Suc i" by simp
  moreover from assms have "xs \<noteq> []" by auto
  ultimately show ?thesis by (simp add: last_conv_nth)
qed

lemma graph_loop:
  assumes g: "flat opts = 0"
  shows "fpos fp < length (file_records (contents fp)) \<Longrightarrow>
         (if end_time (last (file_records (contents fp))) = 0
          then stream_error (replay_loop w tab opts ret count fp)
          else clean_end (replay_loop w tab opts ret count fp))"
proof (induction "length (file_records (contents fp)) - fpos fp" arbitrary: fp ret count
    rule: less_induct)
  case less
  let ?recs = "file_records (contents fp)"
  let ?i = "fpos fp"
  let ?r = "?recs ! ?i"
  let ?fp1 = "fp\<lparr>fpos := Suc ?i\<rparr>"
  let ?fp2 = "fp\<lparr>fpos := Suc (Suc ?i)\<rparr>"
  let ?P = "\<lambda>res. if end_time (last ?recs) = 0 then stream_error res else clean_end res"
  have lt: "?i < length ?recs" by (rule less.prems)
  have ne: "?recs \<noteq> []" using lt by auto
  have step: "replay_loop w tab opts ret count fp =
     (case print_graph_rstack tab ?r ?fp1 of
        (ret1, fp2, ev) \<Rightarrow>
          if ret1 \<noteq> 0 then (ret1, ev)
          else (case replay_loop w tab opts ret1 count fp2 of (r, evs) \<Rightarrow> (r, ev @ evs)))"
    by (simp add: replay_loop_step [OF lt] render_def g split: prod.splits)
  have cont: "?P (case replay_loop w tab opts 0 count fp' of (r, evs) \<Rightarrow> (r, Printf s # evs))"
    if c: "contents fp' = contents fp" and p: "?i < fpos fp'"
      and l: "\<not> fpos fp' < length ?recs \<Longrightarrow> end_time (last ?recs) \<noteq> 0" for fp' s
  proof (cases "fpos fp' < length ?recs")
    case True
    have "length (file_records (contents fp')) - fpos fp' < length ?recs - ?i"
      using c p True by simp
    from less.hyps [OF this, of 0 count] True c
    show ?thesis by (auto intro: clean_end_Printf stream_error_Printf split: if_splits)
  next
    case False
    then have "replay_loop w tab opts 0 count fp' = (0, [])"
      using c by (simp add: replay_loop_eof)
    with l [OF False] show ?thesis by (simp add: clean_end_def)
  qed
  show ?case
  proof (cases "end_time ?r = 0")
    case exit: False
    from print_graph_exit [OF exit] obtain s where
      pg: "print_graph_rstack tab ?r ?fp1 = (0, ?fp1, [Printf s])" by blast
    have "\<not> Suc ?i < length ?recs \<Longrightarrow> end_time (last ?recs) \<noteq> 0"
      using exit last_at_end [OF lt] by simp
    then have "?P (case replay_loop w tab opts 0 count ?fp1 of (r, evs) \<Rightarrow> (r, Printf s # evs))"
      by (intro cont) simp_all
    then show ?thesis by (simp add: step pg)
  next
    case entry: True
    show ?thesis
    proof (cases "Suc ?i < length ?recs")
      case eof: False
      then have last: "last ?recs = ?r"
        using last_at_end [OF lt] by simp
      have "print_graph_rstack tab ?r ?fp1 = (- 1, ?fp1, [Perror ''error reading rstack''])"
        using eof by (intro print_graph_eof [OF entry]) simp
      then show ?thesis by (simp add: step last entry stream_error_def)
    next
      case more: True
      let ?n = "?recs ! Suc ?i"
      show ?thesis
      proof (cases "depth ?n = depth ?r \<and> end_time ?n \<noteq> 0")
        case leaf: True
        have "\<exists>s. print_graph_rstack tab ?r ?fp1 = (0, ?fp1\<lparr>fpos := Suc (fpos ?fp1)\<rparr>, [Printf s])"
          using more leaf by (intro print_graph_leaf [OF entry]) simp_all
        then obtain s where pg: "print_graph_rstack tab ?r ?fp1 = (0, ?fp2, [Printf s])"
          by auto
        have "\<not> Suc (Suc ?i) < length ?recs \<Longrightarrow> end_time (last ?recs) \<noteq> 0"
          using leaf last_at_end [OF more] by simp
        then have "?P (case replay_loop w tab opts 0 count ?fp2 of (r, evs) \<Rightarrow> (r, Printf s # evs))"
          by (intro cont) simp_all
        then show ?thesis by (simp add: step pg)
      next
        case nonleaf: False
        have "\<exists>s. print_graph_rstack tab ?r ?fp1 = (0, ?fp1, [Printf s])"
          using more nonleaf by (intro print_graph_open [OF entry]) simp_all
        then obtain s where pg: "print_graph_rstack tab ?r ?fp1 = (0, ?fp1, [Printf s])"
          by auto
        have "?P (case replay_loop w tab opts 0 count ?fp1 of (r, evs) \<Rightarrow> (r, Printf s # evs))"
          using more by (intro cont) simp_all
        then show ?thesis by (simp add: step pg)
      qed
    qed
  qed
qed


lemma open_data_file_Some:
  assumes "open_data_file h w fname ename = (Some fp, ev0)"
  shows "fpos fp = 0 \<and> ev0 = [Fopen fname] \<and> fopen w fname = Inr (contents fp)"
  using assms
  by (auto simp: open_data_file_def Let_def split: sum.splits if_splits)

lemma command_replay_opened:
  assumes "filename opts = Some fname"
    and "open_data_file h w fname (exename opts) = (Some fp, ev0)"
    and "load_symtab w (exename opts) = (ret, tab)" and "0 \<le> ret"
  shows "command_replay h w opts =
           (Return (fst (replay_loop w tab opts ret 0 fp)),
            [Fopen fname, Load_symtab (exename opts)] @ snd (replay_loop w tab opts ret 0 fp) @
            [Unload_symtab, Fclose])"
  using assms open_data_file_Some [OF assms(2)]
  by (simp add: command_replay_def split: prod.splits)

text \<open>
  C2. Take a trace file that opens, with any bytes \<open>file_tail\<close> left over after its
  last whole record. When the read at the top of the loop is the one that meets the
  end of the records (always in flat mode, and in graph mode when there is no record
  or the last whole record is an exit), the replay ends as on a clean end of stream:
  it returns what the loop had, 0 after any record, and perror is never called. When
  the graph renderer has read an entry as the last whole record, its lookahead read
  fails and the replay returns -1 after perror.
\<close>

theorem replay_truncated_stream:
  assumes "filename opts = Some fname"
    and "open_data_file h w fname (exename opts) = (Some fp, ev0)"
    and "load_symtab w (exename opts) = (ret, tab)" and "0 \<le> ret"
  shows "(flat opts \<noteq> 0 \<or> file_records (contents fp) = [] \<or>
            end_time (last (file_records (contents fp))) \<noteq> 0 \<longrightarrow>
          fst (command_replay h w opts) =
            Return (if file_records (contents fp) = [] then ret else 0) \<and>
          (\<forall>s. Perror s \<notin> set (snd (command_replay h w opts)))) \<and>
         (flat opts = 0 \<and> file_records (contents fp) \<noteq> [] \<and>
            end_time (last (file_records (contents fp))) = 0 \<longrightarrow>
          fst (command_replay h w opts) = Return (- 1) \<and>
          Perror ''error reading rstack'' \<in> set (snd (command_replay h w opts)))"
proof -
  let ?recs = "file_records (contents fp)"
  let ?res = "replay_loop w tab opts ret 0 fp"
  note cr = command_replay_opened [OF assms]
  have pos: "fpos fp = 0" using open_data_file_Some [OF assms(2)] by simp
  have empty: "?res = (ret, [])" if "?recs = []"
    using that by (simp add: replay_loop_eof)
  have flat_mode: "fst ?res = 0 \<and> (\<forall>s. Perror s \<notin> set (snd ?res))"
    if "flat opts \<noteq> 0" and "?recs \<noteq> []"
    using that pos by (auto simp: flat_loop [OF that(1)])
  have graph_exit: "fst ?res = 0 \<and> (\<forall>s. Perror s \<notin> set (snd ?res))"
    if "flat opts = 0" and "?recs \<noteq> []" and "end_time (last ?recs) \<noteq> 0"
    using graph_loop [OF that(1), of fp w tab ret 0] that pos by (simp add: clean_end_def)
  have graph_entry: "fst ?res = - 1 \<and> Perror ''error reading rstack'' \<in> set (snd ?res)"
    if "flat opts = 0" and "?recs \<noteq> []" and "end_time (last ?recs) = 0"
  proof -
    have "stream_error ?res"
      using graph_loop [OF that(1), of fp w tab ret 0] that pos by simp
    then show ?thesis
      using last_in_set [of "snd ?res"] by (auto simp: stream_error_def)
  qed
  have clean: "fst ?res = (if ?recs = [] then ret else 0) \<and> (\<forall>s. Perror s \<notin> set (snd ?res))"
    if "flat opts \<noteq> 0 \<or> ?recs = [] \<or> end_time (last ?recs) \<noteq> 0"
  proof (cases "?recs = []")
    case True
    then show ?thesis by (simp add: empty)
  next
    case False
    then show ?thesis
      using that flat_mode graph_exit by (cases "flat opts = 0") auto
  qed
  show ?thesis
    using clean graph_entry by (auto simp: cr)
qed

lemma open_data_file_ok:
  assumes "fopen w fname = Inr df" and "file_header df = Some hdr"
    and "memcmp (magic hdr) (FTRACE_MAGIC_STR h) (FTRACE_MAGIC_LEN h) = 0"
    and "version hdr = FTRACE_VERSION h"
  shows "open_data_file h w fname ename = (Some \<lparr>contents = df, fpos = 0\<rparr>, [Fopen fname])"
  using assms by (simp add: open_data_file_def fread_header_def)

lemma example_magic_ok:
  "memcmp (magic \<lparr>magic = ''Ftrace!'' @ [CHR 0x00], version = 1\<rparr>) (FTRACE_MAGIC_STR example_h)
     (FTRACE_MAGIC_LEN example_h) = 0"
  by code_simp

lemma example_version_ok:
  "version \<lparr>magic = ''Ftrace!'' @ [CHR 0x00], version = 1\<rparr> = FTRACE_VERSION example_h"
  by (simp add: example_h_def)

theorem replay_truncated_stream_witness:
  "filename example_opts = Some ''ftrace.data'' \<and> (0 :: int) \<le> 0 \<and>
   open_data_file example_h fragment_os ''ftrace.data'' (exename example_opts) =
     (Some \<lparr>contents = fragment_file, fpos = 0\<rparr>, [Fopen ''ftrace.data'']) \<and>
   load_symtab fragment_os (exename example_opts) = (0, replay_tab) \<and>
   file_tail fragment_file = ''abc'' \<and>
   end_time (last (file_records fragment_file)) \<noteq> 0 \<and>
   fst (command_replay example_h fragment_os example_opts) = Return 0 \<and>
   (\<forall>s. Perror s \<notin> set (snd (command_replay example_h fragment_os example_opts))) \<and>
   open_data_file example_h lone_entry_os ''ftrace.data'' (exename example_opts) =
     (Some \<lparr>contents = lone_entry_file, fpos = 0\<rparr>, [Fopen ''ftrace.data'']) \<and>
   load_symtab lone_entry_os (exename example_opts) = (0, replay_tab) \<and>
   flat example_opts = 0 \<and> file_records lone_entry_file \<noteq> [] \<and>
   end_time (last (file_records lone_entry_file)) = 0 \<and>
   fst (command_replay example_h lone_entry_os example_opts) = Return (- 1) \<and>
   Perror ''error reading rstack'' \<in> set (snd (command_replay example_h lone_entry_os example_opts))"
proof -
  have f: "filename example_opts = Some ''ftrace.data''" by (simp add: example_opts_def)
  have o1: "open_data_file example_h fragment_os ''ftrace.data'' (exename example_opts) =
     (Some \<lparr>contents = fragment_file, fpos = 0\<rparr>, [Fopen ''ftrace.data''])"
    by (rule open_data_file_ok [OF _ _ example_magic_ok example_version_ok])
      (simp_all add: fragment_os_def fragment_file_def example_file_def)
  have o2: "open_data_file example_h lone_entry_os ''ftrace.data'' (exename example_opts) =
     (Some \<lparr>contents = lone_entry_file, fpos = 0\<rparr>, [Fopen ''ftrace.data''])"
    by (rule open_data_file_ok [OF _ _ example_magic_ok example_version_ok])
      (simp_all add: lone_entry_os_def lone_entry_file_def example_file_def)
  have l1: "load_symtab fragment_os (exename example_opts) = (0, replay_tab)"
    by (simp add: fragment_os_def example_os_def)
  have l2: "load_symtab lone_entry_os (exename example_opts) = (0, replay_tab)"
    by (simp add: lone_entry_os_def example_os_def)
  have r1: "file_tail fragment_file = ''abc''" "end_time (last (file_records fragment_file)) \<noteq> 0"
    by (simp_all add: fragment_file_def example_file_def example_records_def)
  have r2: "flat example_opts = 0" "file_records lone_entry_file \<noteq> []"
    "end_time (last (file_records lone_entry_file)) = 0"
    by (simp_all add: example_opts_def lone_entry_file_def example_file_def example_records_def)
  show ?thesis
    using replay_truncated_stream [OF f o1 l1] replay_truncated_stream [OF f o2 l2]
      f o1 o2 l1 l2 r1 r2
    by simp
qed

subsection \<open>Opening the trace file\<close>

lemma memcmp_eq_0_iff:
  "n \<le> length a \<Longrightarrow> n \<le> length b \<Longrightarrow> (memcmp a b n = 0) = (\<forall>i<n. a ! i = b ! i)"
proof (induction a b n rule: memcmp.induct)
  case (1 a as b bs n)
  show ?case
  proof (cases "a = b")
    case True
    with 1 show ?thesis by (auto simp: less_Suc_eq_0_disj)
  next
    case False
    then have "(of_char a :: nat) \<noteq> of_char b" by simp
    then have "int (of_char a) - int (of_char b) \<noteq> 0" by simp
    with False show ?thesis by auto
  qed
qed simp_all

text \<open>
  What \<open>open_data_file\<close> does, in the order of its checks, where \<open>hdr\<close> is the
  content of the variable \<open>header\<close> after the fread whose return value is not
  looked at: the header of the file when the file holds a whole one, and otherwise
  whatever the variable then holds. For a missing file (\<open>ENOENT\<close>) no stream and
  the message that tells to record first; for any other failure of fopen no stream
  and perror; for a magic in \<open>hdr\<close> that differs from the expected bytes at some
  position below \<open>FTRACE_MAGIC_LEN\<close> no stream and the magic message; for the
  right magic and a version in \<open>hdr\<close> other than \<open>FTRACE_VERSION\<close> no stream and
  the version message; a stream, positioned after the header, when \<open>hdr\<close> passes
  both. Both byte arrays hold at least \<open>FTRACE_MAGIC_LEN\<close> bytes.
\<close>

lemma open_data_file_checks:
  assumes "FTRACE_MAGIC_LEN h \<le> length (FTRACE_MAGIC_STR h)"
  shows "(fopen w fname = Inl ENOENT \<longrightarrow>
            open_data_file h w fname ename =
              (None, [Fopen fname,
                      Printf (''ERROR: Can'' @ [CHR 0x27] @ ''t find '' @ fname @ '' file!\<newline>'' @
                              ''Was '' @ [CHR 0x27] @ ename @ [CHR 0x27] @
                              '' compiled with -pg flag and ran ftrace record?\<newline>'')])) \<and>
         (fopen w fname = Inl errno \<and> errno \<noteq> ENOENT \<longrightarrow>
            open_data_file h w fname ename = (None, [Fopen fname, Perror ''ftrace''])) \<and>
         (fopen w fname = Inr df \<and>
          hdr = fread_header (indeterminate_header w) \<lparr>contents = df, fpos = 0\<rparr> \<and>
          FTRACE_MAGIC_LEN h \<le> length (magic hdr) \<longrightarrow>
            ((\<exists>i<FTRACE_MAGIC_LEN h. magic hdr ! i \<noteq> FTRACE_MAGIC_STR h ! i) \<longrightarrow>
               open_data_file h w fname ename =
                 (None, [Fopen fname, Printf ''invalid magic string found!\<newline>'', Fclose])) \<and>
            ((\<forall>i<FTRACE_MAGIC_LEN h. magic hdr ! i = FTRACE_MAGIC_STR h ! i) \<and>
             version hdr \<noteq> FTRACE_VERSION h \<longrightarrow>
               open_data_file h w fname ename =
                 (None, [Fopen fname, Printf ''invalid vergion number found!\<newline>'', Fclose])) \<and>
            ((\<forall>i<FTRACE_MAGIC_LEN h. magic hdr ! i = FTRACE_MAGIC_STR h ! i) \<and>
             version hdr = FTRACE_VERSION h \<longrightarrow>
               open_data_file h w fname ename = (Some \<lparr>contents = df, fpos = 0\<rparr>, [Fopen fname])) \<and>
            (fst (open_data_file h w fname ename) \<noteq> None \<longrightarrow>
               (\<forall>i<FTRACE_MAGIC_LEN h. magic hdr ! i = FTRACE_MAGIC_STR h ! i) \<and>
               version hdr = FTRACE_VERSION h)) \<and>
         (fst (open_data_file h w fname ename) \<noteq> None \<longrightarrow> (\<exists>f. fopen w fname = Inr f))"
  using assms
  by (auto simp: open_data_file_def memcmp_eq_0_iff Let_def split: sum.splits)

lemma open_data_file_checks_examples:
  "FTRACE_MAGIC_LEN example_h \<le> length (FTRACE_MAGIC_STR example_h) \<and>
   fopen example_os ''missing.data'' = Inl ENOENT \<and>
   open_data_file example_h example_os ''missing.data'' ''./a.out'' =
     (None, [Fopen ''missing.data'',
             Printf (''ERROR: Can'' @ [CHR 0x27] @ ''t find missing.data file!\<newline>'' @
                     ''Was '' @ [CHR 0x27] @ ''./a.out'' @ [CHR 0x27] @
                     '' compiled with -pg flag and ran ftrace record?\<newline>'')]) \<and>
   fopen denied_os ''ftrace.data'' = Inl 13 \<and> 13 \<noteq> ENOENT \<and>
   open_data_file example_h denied_os ''ftrace.data'' ''./a.out'' =
     (None, [Fopen ''ftrace.data'', Perror ''ftrace'']) \<and>
   fopen bad_magic_os ''ftrace.data'' = Inr bad_magic_file \<and>
   magic (the (file_header bad_magic_file)) ! 0 \<noteq> FTRACE_MAGIC_STR example_h ! 0 \<and>
   open_data_file example_h bad_magic_os ''ftrace.data'' ''./a.out'' =
     (None, [Fopen ''ftrace.data'', Printf ''invalid magic string found!\<newline>'', Fclose]) \<and>
   fopen bad_version_os ''ftrace.data'' = Inr bad_version_file \<and>
   magic (the (file_header bad_version_file)) = FTRACE_MAGIC_STR example_h \<and>
   version (the (file_header bad_version_file)) \<noteq> FTRACE_VERSION example_h \<and>
   open_data_file example_h bad_version_os ''ftrace.data'' ''./a.out'' =
     (None, [Fopen ''ftrace.data'', Printf ''invalid vergion number found!\<newline>'', Fclose]) \<and>
   fopen example_os ''ftrace.data'' = Inr example_file \<and>
   magic (the (file_header example_file)) = FTRACE_MAGIC_STR example_h \<and>
   version (the (file_header example_file)) = FTRACE_VERSION example_h \<and>
   open_data_file example_h example_os ''ftrace.data'' ''./a.out'' =
     (Some \<lparr>contents = example_file, fpos = 0\<rparr>, [Fopen ''ftrace.data''])"
proof -
  let ?bad_magic = "\<lparr>magic = ''ftrace!'' @ [CHR 0x00], version = 1\<rparr>"
  let ?bad_version = "\<lparr>magic = ''Ftrace!'' @ [CHR 0x00], version = 2\<rparr>"
  let ?good = "\<lparr>magic = ''Ftrace!'' @ [CHR 0x00], version = 1\<rparr>"
  have len: "FTRACE_MAGIC_LEN example_h \<le> length (FTRACE_MAGIC_STR example_h)"
    by (simp add: example_h_def)
  have f1: "fopen example_os ''missing.data'' = Inl ENOENT"
    by (simp add: example_os_def)
  have f2: "fopen denied_os ''ftrace.data'' = Inl 13 \<and> 13 \<noteq> ENOENT"
    by (simp add: denied_os_def ENOENT_def)
  have f3: "fopen bad_magic_os ''ftrace.data'' = Inr bad_magic_file \<and>
      ?bad_magic = fread_header (indeterminate_header bad_magic_os)
                     \<lparr>contents = bad_magic_file, fpos = 0\<rparr> \<and>
      FTRACE_MAGIC_LEN example_h \<le> length (magic ?bad_magic)"
    by (simp add: bad_magic_os_def bad_magic_file_def fread_header_def example_h_def)
  have d3: "magic (the (file_header bad_magic_file)) ! 0 \<noteq> FTRACE_MAGIC_STR example_h ! 0"
    by (simp add: bad_magic_file_def example_h_def)
  have x3: "\<exists>i<FTRACE_MAGIC_LEN example_h. magic ?bad_magic ! i \<noteq> FTRACE_MAGIC_STR example_h ! i"
    by (rule exI [of _ 0]) (simp add: example_h_def)
  have f4: "fopen bad_version_os ''ftrace.data'' = Inr bad_version_file \<and>
      ?bad_version = fread_header (indeterminate_header bad_version_os)
                       \<lparr>contents = bad_version_file, fpos = 0\<rparr> \<and>
      FTRACE_MAGIC_LEN example_h \<le> length (magic ?bad_version)"
    by (simp add: bad_version_os_def bad_version_file_def fread_header_def example_h_def)
  have d4: "magic (the (file_header bad_version_file)) = FTRACE_MAGIC_STR example_h"
    "version (the (file_header bad_version_file)) \<noteq> FTRACE_VERSION example_h"
    by (simp_all add: bad_version_file_def example_h_def)
  have x4: "(\<forall>i<FTRACE_MAGIC_LEN example_h. magic ?bad_version ! i = FTRACE_MAGIC_STR example_h ! i) \<and>
      version ?bad_version \<noteq> FTRACE_VERSION example_h"
    by (simp add: example_h_def)
  have f5: "fopen example_os ''ftrace.data'' = Inr example_file \<and>
      ?good = fread_header (indeterminate_header example_os)
                \<lparr>contents = example_file, fpos = 0\<rparr> \<and>
      FTRACE_MAGIC_LEN example_h \<le> length (magic ?good)"
    by (simp add: example_os_def example_file_def fread_header_def example_h_def)
  have d5: "magic (the (file_header example_file)) = FTRACE_MAGIC_STR example_h"
    "version (the (file_header example_file)) = FTRACE_VERSION example_h"
    by (simp_all add: example_file_def example_h_def)
  have x5: "(\<forall>i<FTRACE_MAGIC_LEN example_h. magic ?good ! i = FTRACE_MAGIC_STR example_h ! i) \<and>
      version ?good = FTRACE_VERSION example_h"
    by (simp add: example_h_def)
  have c1: "open_data_file example_h example_os ''missing.data'' ''./a.out'' =
     (None, [Fopen ''missing.data'',
             Printf (''ERROR: Can'' @ [CHR 0x27] @ ''t find missing.data file!\<newline>'' @
                     ''Was '' @ [CHR 0x27] @ ''./a.out'' @ [CHR 0x27] @
                     '' compiled with -pg flag and ran ftrace record?\<newline>'')])"
    using open_data_file_checks [OF len, where w = example_os and fname = "''missing.data''"
        and ename = "''./a.out''", THEN conjunct1] f1
    by simp
  have c2: "open_data_file example_h denied_os ''ftrace.data'' ''./a.out'' =
     (None, [Fopen ''ftrace.data'', Perror ''ftrace''])"
    using open_data_file_checks [OF len, where w = denied_os and fname = "''ftrace.data''"
        and ename = "''./a.out''" and errno = 13, THEN conjunct2, THEN conjunct1] f2
    by (rule mp)
  have c3: "open_data_file example_h bad_magic_os ''ftrace.data'' ''./a.out'' =
     (None, [Fopen ''ftrace.data'', Printf ''invalid magic string found!\<newline>'', Fclose])"
    using open_data_file_checks [OF len, where w = bad_magic_os and fname = "''ftrace.data''"
        and ename = "''./a.out''" and df = bad_magic_file and hdr = ?bad_magic,
        THEN conjunct2, THEN conjunct2, THEN conjunct1, THEN mp, OF f3, THEN conjunct1] x3
    by (rule mp)
  have c4: "open_data_file example_h bad_version_os ''ftrace.data'' ''./a.out'' =
     (None, [Fopen ''ftrace.data'', Printf ''invalid vergion number found!\<newline>'', Fclose])"
    using open_data_file_checks [OF len, where w = bad_version_os and fname = "''ftrace.data''"
        and ename = "''./a.out''" and df = bad_version_file and hdr = ?bad_version,
        THEN conjunct2, THEN conjunct2, THEN conjunct1, THEN mp, OF f4, THEN conjunct2,
        THEN conjunct1] x4
    by (rule mp)
  have c5: "open_data_file example_h example_os ''ftrace.data'' ''./a.out'' =
     (Some \<lparr>contents = example_file, fpos = 0\<rparr>, [Fopen ''ftrace.data''])"
    using open_data_file_checks [OF len, where w = example_os and fname = "''ftrace.data''"
        and ename = "''./a.out''" and df = example_file and hdr = ?good,
        THEN conjunct2, THEN conjunct2, THEN conjunct1, THEN mp, OF f5, THEN conjunct2,
        THEN conjunct2, THEN conjunct1] x5
    by (rule mp)
  from len f1 f2 f3 d3 f4 d4 f5 d5 c1 c2 c3 c4 c5 show ?thesis
    by (intro conjI) (simp_all only: simp_thms)
qed

text \<open>
  C9 does not hold for a file shorter than a header. \<open>open_data_file\<close> does not
  look at what \<open>fread(&header, sizeof(header), 1, fp)\<close> returns, where the reads of
  \<open>command_replay\<close> and \<open>print_graph_rstack\<close> compare it with 1. The 11-byte file
  holds no whole header, so that no header of it has passed the checks; the checks
  are made on the variable, the 11 bytes followed by a stale byte, and the file is
  given a stream, on which the replay then runs to a clean end.
\<close>

theorem open_data_file_accepts_short_file:
  "fopen short_os ''ftrace.data'' = Inr short_file \<and>
   file_header short_file = None \<and> length (file_tail short_file) = 11 \<and>
   open_data_file example_h short_os ''ftrace.data'' ''./a.out'' =
     (Some \<lparr>contents = short_file, fpos = 0\<rparr>, [Fopen ''ftrace.data'']) \<and>
   command_replay example_h short_os example_opts =
     (Return 0, [Fopen ''ftrace.data'', Load_symtab ''./a.out'', Unload_symtab, Fclose])"
  by code_simp

subsection \<open>The environment of the child\<close>

lemma prepend_Some:
  assumes "(case old of
              Some t \<Rightarrow> do { b \<leftarrow> strcat 4096 (snprintf 4096 s) '':''; strcat 4096 b t }
            | None \<Rightarrow> Some (snprintf 4096 s)) = Some buf"
  shows "buf = take 4095 s @ (case old of Some t \<Rightarrow> '':'' @ t | None \<Rightarrow> [])"
  using assms
  by (cases old) (auto simp: snprintf_def strcat_def split: if_splits Option.bind_splits)

lemma set_addrlist_Some:
  assumes "(case optf of
              Some f \<Rightarrow> do { buf \<leftarrow> build_addrlist tab 4096 f; Some (setenv n buf 1 e1) }
            | None \<Rightarrow> Some e1) = Some e2"
  shows "getenv e2 n = (case optf of Some f \<Rightarrow> build_addrlist tab 4096 f | None \<Rightarrow> getenv e1 n)"
    and "m \<noteq> n \<Longrightarrow> getenv e2 m = getenv e1 m"
  using assms
  by (cases optf; auto simp: getenv_def setenv_def update_conv' split: Option.bind_splits)+

lemma setenv_get: "getenv (setenv n v 1 e1) m = (if m = n then Some v else getenv e1 m)"
  by (simp add: getenv_def setenv_def update_conv')

lemma setup_child_environ_SomeE:
  assumes "setup_child_environ h tab debug opts e0 = Some e"
  obtains b1 b2 e3 e4 fname where
    "(case getenv e0 ''LD_PRELOAD'' of
        Some t \<Rightarrow> do { b \<leftarrow> strcat 4096 (snprintf 4096
                 ((case lib_path opts of Some l \<Rightarrow> l | None \<Rightarrow> ''.'') @ ''/'' @ ''libmcount.so'')) '':'';
                       strcat 4096 b t }
      | None \<Rightarrow> Some (snprintf 4096
                 ((case lib_path opts of Some l \<Rightarrow> l | None \<Rightarrow> ''.'') @ ''/'' @ ''libmcount.so''))) = Some b1"
    "(case getenv e0 ''LD_AUDIT'' of
        Some t \<Rightarrow> do { b \<leftarrow> strcat 4096 (snprintf 4096
                 ((case lib_path opts of Some l \<Rightarrow> l | None \<Rightarrow> ''.'') @ ''/'' @ ''librtld-audit.so'')) '':'';
                       strcat 4096 b t }
      | None \<Rightarrow> Some (snprintf 4096
                 ((case lib_path opts of Some l \<Rightarrow> l | None \<Rightarrow> ''.'') @ ''/'' @ ''librtld-audit.so''))) = Some b2"
    "(case filter opts of
        Some f \<Rightarrow> do { buf \<leftarrow> build_addrlist tab 4096 f;
                       Some (setenv ''FTRACE_FILTER'' buf 1
                               (setenv ''LD_AUDIT'' b2 1 (setenv ''LD_PRELOAD'' b1 1 e0))) }
      | None \<Rightarrow> Some (setenv ''LD_AUDIT'' b2 1 (setenv ''LD_PRELOAD'' b1 1 e0))) = Some e3"
    "(case notrace opts of
        Some f \<Rightarrow> do { buf \<leftarrow> build_addrlist tab 4096 f; Some (setenv ''FTRACE_NOTRACE'' buf 1 e3) }
      | None \<Rightarrow> Some e3) = Some e4"
    "filename opts = Some fname"
    "e = (if debug
          then setenv ''FTRACE_DEBUG'' ''1'' 1
                 (if fname \<noteq> FTRACE_FILE_NAME h then setenv ''FTRACE_FILE'' fname 1 e4 else e4)
          else (if fname \<noteq> FTRACE_FILE_NAME h then setenv ''FTRACE_FILE'' fname 1 e4 else e4))"
  using assms unfolding setup_child_environ_def Let_def
  by (simp only: bind_eq_Some_conv) blast

lemma setup_child_environ_vars:
  assumes "setup_child_environ h tab debug opts e0 = Some e"
  shows "getenv e ''LD_PRELOAD'' =
           Some (take 4095 ((case lib_path opts of Some l \<Rightarrow> l | None \<Rightarrow> ''.'') @ ''/libmcount.so'') @
                 (case getenv e0 ''LD_PRELOAD'' of Some old \<Rightarrow> '':'' @ old | None \<Rightarrow> []))"
    and "getenv e ''LD_AUDIT'' =
           Some (take 4095 ((case lib_path opts of Some l \<Rightarrow> l | None \<Rightarrow> ''.'') @ ''/librtld-audit.so'') @
                 (case getenv e0 ''LD_AUDIT'' of Some old \<Rightarrow> '':'' @ old | None \<Rightarrow> []))"
    and "getenv e ''FTRACE_FILTER'' =
           (case filter opts of Some f \<Rightarrow> build_addrlist tab 4096 f
            | None \<Rightarrow> getenv e0 ''FTRACE_FILTER'')"
    and "getenv e ''FTRACE_NOTRACE'' =
           (case notrace opts of Some f \<Rightarrow> build_addrlist tab 4096 f
            | None \<Rightarrow> getenv e0 ''FTRACE_NOTRACE'')"
    and "getenv e ''FTRACE_FILE'' =
           (if filename opts \<noteq> Some (FTRACE_FILE_NAME h) then filename opts
            else getenv e0 ''FTRACE_FILE'')"
    and "getenv e ''FTRACE_DEBUG'' = (if debug then Some ''1'' else getenv e0 ''FTRACE_DEBUG'')"
    and "n \<notin> {''LD_PRELOAD'', ''LD_AUDIT'', ''FTRACE_FILTER'', ''FTRACE_NOTRACE'', ''FTRACE_FILE'',
               ''FTRACE_DEBUG''} \<Longrightarrow> getenv e n = getenv e0 n"
proof -
  from assms obtain b1 b2 e3 e4 fname where
    b1: "(case getenv e0 ''LD_PRELOAD'' of
        Some t \<Rightarrow> do { b \<leftarrow> strcat 4096 (snprintf 4096
                 ((case lib_path opts of Some l \<Rightarrow> l | None \<Rightarrow> ''.'') @ ''/'' @ ''libmcount.so'')) '':'';
                       strcat 4096 b t }
      | None \<Rightarrow> Some (snprintf 4096
                 ((case lib_path opts of Some l \<Rightarrow> l | None \<Rightarrow> ''.'') @ ''/'' @ ''libmcount.so''))) = Some b1"
    and b2: "(case getenv e0 ''LD_AUDIT'' of
        Some t \<Rightarrow> do { b \<leftarrow> strcat 4096 (snprintf 4096
                 ((case lib_path opts of Some l \<Rightarrow> l | None \<Rightarrow> ''.'') @ ''/'' @ ''librtld-audit.so'')) '':'';
                       strcat 4096 b t }
      | None \<Rightarrow> Some (snprintf 4096
                 ((case lib_path opts of Some l \<Rightarrow> l | None \<Rightarrow> ''.'') @ ''/'' @ ''librtld-audit.so''))) = Some b2"
    and e3: "(case filter opts of
        Some f \<Rightarrow> do { buf \<leftarrow> build_addrlist tab 4096 f;
                       Some (setenv ''FTRACE_FILTER'' buf 1
                               (setenv ''LD_AUDIT'' b2 1 (setenv ''LD_PRELOAD'' b1 1 e0))) }
      | None \<Rightarrow> Some (setenv ''LD_AUDIT'' b2 1 (setenv ''LD_PRELOAD'' b1 1 e0))) = Some e3"
    and e4: "(case notrace opts of
        Some f \<Rightarrow> do { buf \<leftarrow> build_addrlist tab 4096 f; Some (setenv ''FTRACE_NOTRACE'' buf 1 e3) }
      | None \<Rightarrow> Some e3) = Some e4"
    and fname: "filename opts = Some fname"
    and e: "e = (if debug
          then setenv ''FTRACE_DEBUG'' ''1'' 1
                 (if fname \<noteq> FTRACE_FILE_NAME h then setenv ''FTRACE_FILE'' fname 1 e4 else e4)
          else (if fname \<noteq> FTRACE_FILE_NAME h then setenv ''FTRACE_FILE'' fname 1 e4 else e4))"
    by (rule setup_child_environ_SomeE)
  note b1' = prepend_Some [OF b1] and b2' = prepend_Some [OF b2]
  note f = set_addrlist_Some [OF e3] and n = set_addrlist_Some [OF e4]
  have get: "getenv e m =
      (if debug \<and> m = ''FTRACE_DEBUG'' then Some ''1''
       else if fname \<noteq> FTRACE_FILE_NAME h \<and> m = ''FTRACE_FILE'' then Some fname
       else getenv e4 m)" for m
    by (simp add: e setenv_get)
  show "getenv e ''LD_PRELOAD'' =
           Some (take 4095 ((case lib_path opts of Some l \<Rightarrow> l | None \<Rightarrow> ''.'') @ ''/libmcount.so'') @
                 (case getenv e0 ''LD_PRELOAD'' of Some old \<Rightarrow> '':'' @ old | None \<Rightarrow> []))"
    by (simp add: get n(2) f(2) setenv_get b1')
  show "getenv e ''LD_AUDIT'' =
           Some (take 4095 ((case lib_path opts of Some l \<Rightarrow> l | None \<Rightarrow> ''.'') @ ''/librtld-audit.so'') @
                 (case getenv e0 ''LD_AUDIT'' of Some old \<Rightarrow> '':'' @ old | None \<Rightarrow> []))"
    by (simp add: get n(2) f(2) setenv_get b2')
  show "getenv e ''FTRACE_FILTER'' =
           (case filter opts of Some f \<Rightarrow> build_addrlist tab 4096 f
            | None \<Rightarrow> getenv e0 ''FTRACE_FILTER'')"
    by (simp add: get n(2) f(1) setenv_get split: option.splits)
  show "getenv e ''FTRACE_NOTRACE'' =
           (case notrace opts of Some f \<Rightarrow> build_addrlist tab 4096 f
            | None \<Rightarrow> getenv e0 ''FTRACE_NOTRACE'')"
    by (simp add: get n(1) f(2) setenv_get split: option.splits)
  show "getenv e ''FTRACE_FILE'' =
           (if filename opts \<noteq> Some (FTRACE_FILE_NAME h) then filename opts
            else getenv e0 ''FTRACE_FILE'')"
    by (simp add: get n(2) f(2) setenv_get fname)
  show "getenv e ''FTRACE_DEBUG'' = (if debug then Some ''1'' else getenv e0 ''FTRACE_DEBUG'')"
    by (simp add: get n(2) f(2) setenv_get)
  show "getenv e n = getenv e0 n"
    if "n \<notin> {''LD_PRELOAD'', ''LD_AUDIT'', ''FTRACE_FILTER'', ''FTRACE_NOTRACE'', ''FTRACE_FILE'',
               ''FTRACE_DEBUG''}"
    using that set_addrlist_Some(2) [OF e3, of n] set_addrlist_Some(2) [OF e4, of n]
    by (simp add: get setenv_get)
qed

lemma build_addrlist_filter_tab:
  "build_addrlist filter_tab 4096 ''foo,bar'' = Some ''0x1000''"
  "build_addrlist filter_tab 4096 ''bar'' = Some []"
  by code_simp+

lemma child_environ_defined:
  "setup_child_environ example_h filter_tab True child_opts child_env \<noteq> None"
  by (simp add: setup_child_environ_def child_opts_def child_env_def example_opts_def
      getenv_def snprintf_def strcat_def build_addrlist_filter_tab Let_def)

text \<open>
  C5, as amended. When \<open>setup_child_environ\<close> has defined behaviour, \<open>LD_PRELOAD\<close>
  afterwards holds the first 4095 bytes of \<open><lib_path>/libmcount.so\<close> (snprintf
  into the 4096-byte buffer), hence all of it whenever that is shorter than 4096
  bytes, followed when there was a prior value by a colon and the prior value
  unchanged; \<open>LD_AUDIT\<close> likewise with \<open>librtld-audit.so\<close>; \<open>lib_path\<close> is \<open>.\<close> when
  no library path was given. With no prior value the variable holds the library
  path alone.
\<close>

theorem setup_child_environ_prepends:
  assumes "setup_child_environ h tab debug opts e0 = Some e"
    and "lp = (case lib_path opts of Some l \<Rightarrow> l | None \<Rightarrow> ''.'')"
  shows "getenv e ''LD_PRELOAD'' =
           Some (take 4095 (lp @ ''/libmcount.so'') @
                 (case getenv e0 ''LD_PRELOAD'' of Some old \<Rightarrow> '':'' @ old | None \<Rightarrow> [])) \<and>
         getenv e ''LD_AUDIT'' =
           Some (take 4095 (lp @ ''/librtld-audit.so'') @
                 (case getenv e0 ''LD_AUDIT'' of Some old \<Rightarrow> '':'' @ old | None \<Rightarrow> [])) \<and>
         (length (lp @ ''/libmcount.so'') < 4096 \<longrightarrow>
            getenv e ''LD_PRELOAD'' =
              Some (lp @ ''/libmcount.so'' @
                    (case getenv e0 ''LD_PRELOAD'' of Some old \<Rightarrow> '':'' @ old | None \<Rightarrow> []))) \<and>
         (length (lp @ ''/librtld-audit.so'') < 4096 \<longrightarrow>
            getenv e ''LD_AUDIT'' =
              Some (lp @ ''/librtld-audit.so'' @
                    (case getenv e0 ''LD_AUDIT'' of Some old \<Rightarrow> '':'' @ old | None \<Rightarrow> [])))"
  using setup_child_environ_vars(1,2) [OF assms(1)] assms(2) by simp

theorem setup_child_environ_prepends_witness:
  "setup_child_environ example_h filter_tab True child_opts child_env \<noteq> None \<and>
   length (''/opt/ftrace'' @ ''/libmcount.so'') < 4096 \<and>
   length (''/opt/ftrace'' @ ''/librtld-audit.so'') < 4096 \<and>
   getenv child_env ''LD_PRELOAD'' = Some ''/lib/libfoo.so'' \<and>
   getenv child_env ''LD_AUDIT'' = None \<and>
   getenv (the (setup_child_environ example_h filter_tab True child_opts child_env)) ''LD_PRELOAD'' =
     Some ''/opt/ftrace/libmcount.so:/lib/libfoo.so'' \<and>
   getenv (the (setup_child_environ example_h filter_tab True child_opts child_env)) ''LD_AUDIT'' =
     Some ''/opt/ftrace/librtld-audit.so''"
proof -
  have d: "setup_child_environ example_h filter_tab True child_opts child_env =
      Some (the (setup_child_environ example_h filter_tab True child_opts child_env))"
    using child_environ_defined by simp
  have lp: "''/opt/ftrace'' = (case lib_path child_opts of Some l \<Rightarrow> l | None \<Rightarrow> ''.'')"
    by (simp add: child_opts_def)
  have old: "getenv child_env ''LD_PRELOAD'' = Some ''/lib/libfoo.so''"
    "getenv child_env ''LD_AUDIT'' = None"
    by (simp_all add: child_env_def getenv_def)
  show ?thesis
    using setup_child_environ_prepends [OF d lp] child_environ_defined old by simp
qed

text \<open>
  C5 as stated fails for a library path of 4095 bytes: snprintf keeps the path and
  drops \<open>/libmcount.so\<close>.
\<close>

theorem setup_child_environ_prepends_counterexample:
  "setup_child_environ example_h filter_tab False
     (example_opts\<lparr>lib_path := Some (replicate 4095 CHR ''a'')\<rparr>) [] \<noteq> None \<and>
   getenv (the (setup_child_environ example_h filter_tab False
     (example_opts\<lparr>lib_path := Some (replicate 4095 CHR ''a'')\<rparr>) [])) ''LD_PRELOAD'' =
     Some (replicate 4095 CHR ''a'') \<and>
   replicate 4095 CHR ''a'' \<noteq> replicate 4095 CHR ''a'' @ ''/libmcount.so''"
proof -
  have d: "setup_child_environ example_h filter_tab False
     (example_opts\<lparr>lib_path := Some (replicate 4095 CHR ''a'')\<rparr>) [] \<noteq> None"
    by (simp add: setup_child_environ_def example_opts_def getenv_def snprintf_def Let_def)
  then have "setup_child_environ example_h filter_tab False
     (example_opts\<lparr>lib_path := Some (replicate 4095 CHR ''a'')\<rparr>) [] =
     Some (the (setup_child_environ example_h filter_tab False
       (example_opts\<lparr>lib_path := Some (replicate 4095 CHR ''a'')\<rparr>) []))"
    by simp
  from setup_child_environ_vars(1) [OF this] d show ?thesis
    by (simp add: getenv_def)
qed

text \<open>
  C6, as amended. When \<open>setup_child_environ\<close> has defined behaviour:
  \<open>FTRACE_FILTER\<close> is set, to the address list built, exactly when a filter option
  was given, and \<open>FTRACE_NOTRACE\<close> exactly when an exclusion option was given,
  whether or not the list built is empty; \<open>FTRACE_FILE\<close> is set to the file name
  exactly when it differs from \<open>FTRACE_FILE_NAME\<close>; \<open>FTRACE_DEBUG\<close> is set to 1
  exactly when debugging is on. A variable that is not set keeps the value it had.
\<close>

theorem setup_child_environ_optional:
  assumes "setup_child_environ h tab debug opts e0 = Some e"
  shows "getenv e ''FTRACE_FILTER'' =
           (case filter opts of Some f \<Rightarrow> build_addrlist tab 4096 f
            | None \<Rightarrow> getenv e0 ''FTRACE_FILTER'') \<and>
         getenv e ''FTRACE_NOTRACE'' =
           (case notrace opts of Some f \<Rightarrow> build_addrlist tab 4096 f
            | None \<Rightarrow> getenv e0 ''FTRACE_NOTRACE'') \<and>
         getenv e ''FTRACE_FILE'' =
           (if filename opts \<noteq> Some (FTRACE_FILE_NAME h) then filename opts
            else getenv e0 ''FTRACE_FILE'') \<and>
         getenv e ''FTRACE_DEBUG'' = (if debug then Some ''1'' else getenv e0 ''FTRACE_DEBUG'')"
  using setup_child_environ_vars(3,4,5,6) [OF assms] by simp

theorem setup_child_environ_optional_witness:
  "setup_child_environ example_h filter_tab True child_opts child_env \<noteq> None \<and>
   getenv (the (setup_child_environ example_h filter_tab True child_opts child_env)) ''FTRACE_FILTER'' =
     Some ''0x1000'' \<and>
   getenv (the (setup_child_environ example_h filter_tab True child_opts child_env)) ''FTRACE_NOTRACE'' =
     getenv child_env ''FTRACE_NOTRACE'' \<and>
   getenv (the (setup_child_environ example_h filter_tab True child_opts child_env)) ''FTRACE_FILE'' =
     Some ''out.data'' \<and>
   getenv (the (setup_child_environ example_h filter_tab True child_opts child_env)) ''FTRACE_DEBUG'' =
     Some ''1''"
proof -
  have d: "setup_child_environ example_h filter_tab True child_opts child_env =
      Some (the (setup_child_environ example_h filter_tab True child_opts child_env))"
    using child_environ_defined by simp
  show ?thesis
    using setup_child_environ_optional [OF d] child_environ_defined
    by (simp add: child_opts_def example_opts_def example_h_def build_addrlist_filter_tab)
qed

text \<open>
  C6 as stated fails for a filter that names only an unresolved function: the
  option is given, so \<open>FTRACE_FILTER\<close> is set, to the empty list.
\<close>

theorem setup_child_environ_optional_counterexample:
  "find_symname filter_tab ''bar'' = None \<and>
   setup_child_environ example_h filter_tab False (example_opts\<lparr>filter := Some ''bar''\<rparr>)
     [] \<noteq> None \<and>
   getenv (the (setup_child_environ example_h filter_tab False
     (example_opts\<lparr>filter := Some ''bar''\<rparr>) [])) ''FTRACE_FILTER'' = Some []"
proof -
  have u: "find_symname filter_tab ''bar'' = None" by code_simp
  have d: "setup_child_environ example_h filter_tab False (example_opts\<lparr>filter := Some ''bar''\<rparr>)
     [] \<noteq> None"
    by (simp add: setup_child_environ_def example_opts_def getenv_def snprintf_def
        build_addrlist_filter_tab Let_def)
  then have "setup_child_environ example_h filter_tab False (example_opts\<lparr>filter := Some ''bar''\<rparr>)
     [] =
     Some (the (setup_child_environ example_h filter_tab False
       (example_opts\<lparr>filter := Some ''bar''\<rparr>) []))"
    by simp
  from setup_child_environ_vars(3) [OF this] u d show ?thesis
    by (simp add: build_addrlist_filter_tab)
qed

subsection \<open>The dynamic-loader fallback\<close>

text \<open>
  C4 does not hold for the graph renderer. The trace is main calling \<open>puts\<close>, whose
  address the static table does not have and dladdr resolves. The flat renderer
  asks dladdr and prints \<open>puts\<close>; the graph renderer never calls dladdr and prints
  \<open>unknown\<close>.
\<close>

theorem graph_renderer_skips_dladdr:
  "find_symtab replay_tab 0x7100 = None \<and>
   dladdr puts_os 0x7100 = Some \<lparr>dli_sname = Some ''puts''\<rparr> \<and>
   stdout_of (snd (command_replay example_h puts_os (example_opts\<lparr>flat := 1\<rparr>))) =
     [''[0] 1234/1: ip (main -> puts), time (200)\<newline>'',
      ''[1] 1234/1: ip (main <- puts), time (207:7)\<newline>''] \<and>
   stdout_of (snd (command_replay example_h puts_os example_opts)) =
     [''   7 usec [ 1234] |   unknown();\<newline>'']"
  by code_simp

subsection \<open>Recording\<close>

text \<open>
  C7. When the symbol table of the target has loaded and has no symbol \<open>mcount\<close>,
  \<open>command_record\<close> never forks and never execs; with a file name to work on it
  prints the message about the missing symbol as the last thing it does, right
  after loading the table, and returns -1.
\<close>

theorem record_probe_missing:
  assumes "load_symtab w (exename opts) = (ret, tab)" and "0 \<le> ret"
    and "find_symname tab ''mcount'' = None"
  shows "Fork \<notin> set (snd (command_record h w debug argv opts)) \<and>
         (\<forall>p a e. Execv p a e \<notin> set (snd (command_record h w debug argv opts))) \<and>
         (\<forall>fname. filename opts = Some fname \<longrightarrow>
            command_record h w debug argv opts =
              (Return (- 1),
               (if FTRACE_FILE_NAME h = fname
                then [Rename fname (snprintf 512 (fname @ ''.old''))] else []) @
               [Load_symtab (exename opts),
                Printf (''ERROR: Can'' @ [CHR 0x27] @ ''t find '' @ [CHR 0x27] @ ''mcount'' @
                        [CHR 0x27] @ '' symbol in the '' @ [CHR 0x27] @ exename opts @
                        [CHR 0x27] @ ''.\<newline>'' @
                        ''It seems not to be compiled with -pg flag which generates traceable code.\<newline>'' @
                        ''Please check your binary file.\<newline>'')]))"
  using assms
  by (cases "filename opts") (auto simp: command_record_def mcount_msg_def)

theorem record_probe_missing_witness:
  "load_symtab example_os (exename example_opts) = (0, replay_tab) \<and> (0 :: int) \<le> 0 \<and>
   find_symname replay_tab ''mcount'' = None \<and>
   filename example_opts = Some ''ftrace.data'' \<and>
   Fork \<notin> set (snd (command_record example_h example_os False
                        [''ftrace'', ''record'', ''./a.out''] example_opts)) \<and>
   command_record example_h example_os False [''ftrace'', ''record'', ''./a.out''] example_opts =
     (Return (- 1),
      [Rename ''ftrace.data'' ''ftrace.data.old'', Load_symtab ''./a.out'',
       Printf (''ERROR: Can'' @ [CHR 0x27] @ ''t find '' @ [CHR 0x27] @ ''mcount'' @ [CHR 0x27] @
               '' symbol in the '' @ [CHR 0x27] @ ''./a.out'' @ [CHR 0x27] @ ''.\<newline>'' @
               ''It seems not to be compiled with -pg flag which generates traceable code.\<newline>'' @
               ''Please check your binary file.\<newline>'')])"
proof -
  have l: "load_symtab example_os (exename example_opts) = (0, replay_tab)"
    by (simp add: example_os_def)
  have m: "find_symname replay_tab ''mcount'' = None" by code_simp
  have f: "filename example_opts = Some ''ftrace.data''" by (simp add: example_opts_def)
  have e: "exename example_opts = ''./a.out''" "FTRACE_FILE_NAME example_h = ''ftrace.data''"
    "snprintf 512 (''ftrace.data'' @ ''.old'') = ''ftrace.data.old''"
    by (simp_all add: example_opts_def example_h_def snprintf_def)
  show ?thesis
    using record_probe_missing [OF l _ m, of example_h False "[''ftrace'', ''record'', ''./a.out'']"]
      l m f e
    by simp
qed

subsection \<open>Live mode\<close>

lemma command_replay_returns:
  "filename opts = Some fname \<Longrightarrow> \<exists>r. fst (command_replay h w opts) = Return r"
  by (auto simp: command_replay_def split: prod.splits option.splits)

text \<open>
  C10. When mkstemp gives a descriptor, \<open>command_live\<close> closes it, records with the
  name mkstemp made as the trace file name and, in the process in which
  \<open>command_record\<close> returns, replays with the same name exactly when the record
  step returned 0, then unlinks that file, and returns 0 whatever the record step
  returned.
\<close>

theorem live_unlinks_and_returns_0:
  assumes "mkstemp w ''/tmp/ftrace-live-XXXXXX'' = (fd, template)" and "0 \<le> fd"
    and "command_record h w debug argv (opts\<lparr>filename := Some template\<rparr>) = (Return r, ev1)"
  shows "command_live h w debug argv opts =
           (Return 0,
            [Mkstemp, Close fd] @ ev1 @
            (if r = 0 then snd (command_replay h w (opts\<lparr>filename := Some template\<rparr>)) else []) @
            [Unlink template])"
proof -
  obtain r2 where "fst (command_replay h w (opts\<lparr>filename := Some template\<rparr>)) = Return r2"
    using command_replay_returns [of "opts\<lparr>filename := Some template\<rparr>" template h w] by auto
  then show ?thesis
    using assms by (auto simp: command_live_def split: prod.splits)
qed

theorem live_unlinks_and_returns_0_witness:
  "mkstemp live_os ''/tmp/ftrace-live-XXXXXX'' = (3, ''/tmp/ftrace-live-abcdef'') \<and> (0 :: int) \<le> 3 \<and>
   fst (command_record example_h live_os False [''ftrace'', ''./a.out'']
          (example_opts\<lparr>filename := Some ''/tmp/ftrace-live-abcdef''\<rparr>)) = Return 0 \<and>
   command_live example_h live_os False [''ftrace'', ''./a.out''] example_opts =
     (Return 0,
      [Mkstemp, Close 3, Load_symtab ''./a.out'', Fflush, Fork, Waitpid,
       Access ''/tmp/ftrace-live-abcdef'', Fopen ''/tmp/ftrace-live-abcdef'',
       Load_symtab ''./a.out'', Printf ''          [ 1234] | main() {\<newline>'',
       Printf ''          [ 1234] |   foo() {\<newline>'',
       Printf ''   5 usec [ 1234] |     bar();\<newline>'',
       Printf ''  30 usec [ 1234] |   } /* foo */\<newline>'',
       Printf ''  60 usec [ 1234] | } /* main */\<newline>'', Unload_symtab, Fclose,
       Unlink ''/tmp/ftrace-live-abcdef'']) \<and>
   mkstemp example_os ''/tmp/ftrace-live-XXXXXX'' = (3, ''/tmp/ftrace-live-abcdef'') \<and>
   fst (command_record example_h example_os False [''ftrace'', ''./a.out'']
          (example_opts\<lparr>filename := Some ''/tmp/ftrace-live-abcdef''\<rparr>)) = Return (- 1) \<and>
   command_live example_h example_os False [''ftrace'', ''./a.out''] example_opts =
     (Return 0,
      [Mkstemp, Close 3, Load_symtab ''./a.out'',
       Printf (''ERROR: Can'' @ [CHR 0x27] @ ''t find '' @ [CHR 0x27] @ ''mcount'' @ [CHR 0x27] @
               '' symbol in the '' @ [CHR 0x27] @ ''./a.out'' @ [CHR 0x27] @ ''.\<newline>'' @
               ''It seems not to be compiled with -pg flag which generates traceable code.\<newline>'' @
               ''Please check your binary file.\<newline>''),
       Unlink ''/tmp/ftrace-live-abcdef''])"
proof -
  let ?opts1 = "example_opts\<lparr>filename := Some ''/tmp/ftrace-live-abcdef''\<rparr>"
  let ?argv = "[''ftrace'', ''./a.out'']"
  have m1: "mkstemp live_os ''/tmp/ftrace-live-XXXXXX'' = (3, ''/tmp/ftrace-live-abcdef'')"
    by (simp add: live_os_def example_os_def)
  have m2: "mkstemp example_os ''/tmp/ftrace-live-XXXXXX'' = (3, ''/tmp/ftrace-live-abcdef'')"
    by (simp add: example_os_def)
  have r1: "command_record example_h live_os False ?argv ?opts1 =
      (Return 0, [Load_symtab ''./a.out'', Fflush, Fork, Waitpid, Access ''/tmp/ftrace-live-abcdef''])"
    by code_simp
  have p1: "snd (command_replay example_h live_os ?opts1) =
      [Fopen ''/tmp/ftrace-live-abcdef'',
       Load_symtab ''./a.out'', Printf ''          [ 1234] | main() {\<newline>'',
       Printf ''          [ 1234] |   foo() {\<newline>'',
       Printf ''   5 usec [ 1234] |     bar();\<newline>'',
       Printf ''  30 usec [ 1234] |   } /* foo */\<newline>'',
       Printf ''  60 usec [ 1234] | } /* main */\<newline>'', Unload_symtab, Fclose]"
    by code_simp
  have r2: "command_record example_h example_os False ?argv ?opts1 =
      (Return (- 1),
       [Load_symtab ''./a.out'',
        Printf (''ERROR: Can'' @ [CHR 0x27] @ ''t find '' @ [CHR 0x27] @ ''mcount'' @ [CHR 0x27] @
               '' symbol in the '' @ [CHR 0x27] @ ''./a.out'' @ [CHR 0x27] @ ''.\<newline>'' @
               ''It seems not to be compiled with -pg flag which generates traceable code.\<newline>'' @
               ''Please check your binary file.\<newline>'')])"
    by code_simp
  show ?thesis
    using live_unlinks_and_returns_0 [OF m1 _ r1]
      live_unlinks_and_returns_0 [OF m2 _ r2] m1 m2 r1 r2 p1
    by simp
qed

end
